theory Spec2Isabelle
  imports Main "HOL-Library.Sublist"
begin

section \<open>Data shared by the wrapper and its backends\<close>

text \<open>
  Go's \<open>[]byte\<close> and \<open>string\<close> are byte sequences: both are \<open>char list\<close> here.
  A nil slice is told apart from an empty one only where the source tests
  \<open>data == nil\<close>; there the value is a \<open>bytes option\<close>, \<open>None\<close> being nil.
  A non-nil \<open>error\<close> is identified with the text its \<open>Error()\<close> method returns, which is
  all the handler reads of it; a nil error is \<open>None\<close>.
\<close>

type_synonym bytes = string
type_synonym error = string

text \<open>\<open>type LockInfo struct\<close> of wrapper.go; \<open>time.Time\<close> is an instant counted from the
  zero \<open>Time\<close>.\<close>

record LockInfo =
  ID :: string
  Operation :: string
  Info :: string
  Who :: string
  Version :: string
  Created :: int
  Path :: string

definition zeroLockInfo :: LockInfo where
  "zeroLockInfo = \<lparr>ID = [], Operation = [], Info = [], Who = [], Version = [],
     Created = 0, Path = []\<rparr>"

text \<open>The process environment, as \<open>os.Setenv\<close> and \<open>os.LookupEnv\<close> see it.\<close>

type_synonym env = "string \<rightharpoonup> string"

text \<open>
  \<open>type Backend interface\<close>. An implementation carries state of its own (type \<open>'s\<close>),
  which every method receives and returns. \<open>Config\<close> also reads the process environment.
  \<open>Get\<close> and \<open>Lock\<close> return all their Go results, since the handler reads the data
  even when the error is not nil.
\<close>

record 's Backend =
  Config :: "env \<Rightarrow> 's \<Rightarrow> error option \<times> 's"
  Get :: "'s \<Rightarrow> (bytes option \<times> error option) \<times> 's"
  Set :: "bytes \<Rightarrow> string \<Rightarrow> string \<Rightarrow> 's \<Rightarrow> error option \<times> 's"
  Delete :: "'s \<Rightarrow> error option \<times> 's"
  Lock :: "LockInfo \<Rightarrow> 's \<Rightarrow> (bool \<times> LockInfo \<times> error option) \<times> 's"
  UnLock :: "LockInfo \<Rightarrow> 's \<Rightarrow> error option \<times> 's"
  Lockable :: "'s \<Rightarrow> bool"

section \<open>The parts of net/http, net/url and encoding/json the handler uses\<close>

abbreviation StatusOK :: nat where "StatusOK \<equiv> 200"
abbreviation StatusUnauthorized :: nat where "StatusUnauthorized \<equiv> 401"
abbreviation StatusNotFound :: nat where "StatusNotFound \<equiv> 404"
abbreviation StatusMethodNotAllowed :: nat where "StatusMethodNotAllowed \<equiv> 405"
abbreviation StatusConflict :: nat where "StatusConflict \<equiv> 409"
abbreviation StatusInternalServerError :: nat where "StatusInternalServerError \<equiv> 500"

abbreviation MethodGet :: string where "MethodGet \<equiv> ''GET''"
abbreviation MethodPost :: string where "MethodPost \<equiv> ''POST''"
abbreviation MethodDelete :: string where "MethodDelete \<equiv> ''DELETE''"

text \<open>
  An \<open>http.ResponseWriter\<close>: the status line once it has been written, and the bytes
  written to the body so far. Headers other than the status are left out.
\<close>

record ResponseWriter =
  statusCode :: "nat option"
  written :: bytes

definition newResponseWriter :: ResponseWriter where
  "newResponseWriter = \<lparr>statusCode = None, written = []\<rparr>"

text \<open>\<open>WriteHeader\<close>: the first call fixes the status; a later call is reported as
  superfluous and changes nothing.\<close>

definition WriteHeader :: "nat \<Rightarrow> ResponseWriter \<Rightarrow> ResponseWriter" where
  "WriteHeader code w =
     (case statusCode w of None \<Rightarrow> w\<lparr>statusCode := Some code\<rparr> | Some c \<Rightarrow> w)"

definition bodyAllowedForStatus :: "nat \<Rightarrow> bool" where
  "bodyAllowedForStatus status =
     (if 100 \<le> status \<and> status \<le> 199 then False
      else if status = 204 then False
      else if status = 304 then False
      else True)"

text \<open>\<open>Write\<close>: sends \<open>200 OK\<close> first when no status has been written, then appends the
  data, unless the status allows no body.\<close>

definition Write :: "bytes \<Rightarrow> ResponseWriter \<Rightarrow> error option \<times> ResponseWriter" where
  "Write data w =
     (let w1 = (case statusCode w of None \<Rightarrow> WriteHeader StatusOK w | Some c \<Rightarrow> w)
      in case statusCode w1 of
           None \<Rightarrow> (None, w1)
         | Some c \<Rightarrow>
             if bodyAllowedForStatus c then (None, w1\<lparr>written := written w1 @ data\<rparr>)
             else (Some ''http: request method or response status code does not allow body'', w1))"

text \<open>\<open>http.Error(w, error, code)\<close>: \<open>w.WriteHeader(code)\<close>, then
  \<open>fmt.Fprintln(w, error)\<close>, which writes the text and a newline.\<close>

definition Error :: "ResponseWriter \<Rightarrow> string \<Rightarrow> nat \<Rightarrow> ResponseWriter" where
  "Error w err code = snd (Write (err @ [CHR 0x0A]) (WriteHeader code w))"

text \<open>
  What the handler reads of an \<open>*http.Request\<close>: the method, the result of
  \<open>request.BasicAuth()\<close> (username, password, ok), the result of
  \<open>io.ReadAll(request.Body)\<close> (the bytes read and the error, if any), and the parsed
  query \<open>request.URL.Query()\<close>, a \<open>url.Values\<close>.
\<close>

type_synonym Values = "string \<rightharpoonup> string list"

record Request =
  Method :: string
  BasicAuth :: "string \<times> string \<times> bool"
  Body :: "bytes \<times> error option"
  Query :: Values

text \<open>\<open>Values.Get\<close>: the first value of the key, the empty string when there is none.\<close>

definition Values_Get :: "Values \<Rightarrow> string \<Rightarrow> string" where
  "Values_Get v key =
     (case v key of None \<Rightarrow> [] | Some vs \<Rightarrow> (case vs of [] \<Rightarrow> [] | x # _ \<Rightarrow> x))"

text \<open>
  \<open>json.Marshal\<close> and \<open>json.Unmarshal\<close> on a \<open>LockInfo\<close> are parameters of the model.
  \<open>Unmarshal\<close> gives the \<open>LockInfo\<close> that decoding into a zero value leaves behind,
  and the error; \<open>Marshal\<close> gives the bytes (none on an error) and the error.
\<close>

record json =
  Marshal :: "LockInfo \<Rightarrow> bytes \<times> error option"
  Unmarshal :: "bytes \<Rightarrow> LockInfo \<times> error option"

section \<open>The protocol adapter: backendHandler\<close>

text \<open>
  The calls a request makes on the backend are recorded in order, so that a theorem can
  say which calls were made and how often.
\<close>

datatype call =
    CallGet
  | CallSet bytes string string
  | CallDelete
  | CallLock LockInfo
  | CallUnLock LockInfo
  | CallLockable

text \<open>The state one request runs in: the response writer, the backend's state and the
  calls made on the backend so far.\<close>

record 's exchange =
  writer :: ResponseWriter
  store :: 's
  calls :: "call list"

definition newExchange :: "'s \<Rightarrow> 's exchange" where
  "newExchange s = \<lparr>writer = newResponseWriter, store = s, calls = []\<rparr>"

definition httpError :: "string \<Rightarrow> nat \<Rightarrow> 's exchange \<Rightarrow> 's exchange" where
  "httpError err code x = x\<lparr>writer := Error (writer x) err code\<rparr>"

definition writeHeader :: "nat \<Rightarrow> 's exchange \<Rightarrow> 's exchange" where
  "writeHeader code x = x\<lparr>writer := WriteHeader code (writer x)\<rparr>"

text \<open>\<open>_, err = writer.Write(data)\<close>: a failed write is only logged.\<close>

definition writeBody :: "bytes \<Rightarrow> 's exchange \<Rightarrow> 's exchange" where
  "writeBody data x = x\<lparr>writer := snd (Write data (writer x))\<rparr>"

text \<open>The closure \<open>returnError\<close>, and the pattern \<open>if err != nil { returnError(err) }\<close>,
  after which the source goes on.\<close>

definition returnError :: "error \<Rightarrow> 's exchange \<Rightarrow> 's exchange" where
  "returnError err x = httpError err StatusInternalServerError x"

definition ifErr :: "error option \<Rightarrow> 's exchange \<Rightarrow> 's exchange" where
  "ifErr err x = (case err of None \<Rightarrow> x | Some e \<Rightarrow> returnError e x)"

definition callGet :: "'s Backend \<Rightarrow> 's exchange \<Rightarrow> (bytes option \<times> error option) \<times> 's exchange" where
  "callGet backend x =
     (let (r, s) = Get backend (store x)
      in (r, x\<lparr>store := s, calls := calls x @ [CallGet]\<rparr>))"

definition callSet :: "'s Backend \<Rightarrow> bytes \<Rightarrow> string \<Rightarrow> string \<Rightarrow> 's exchange \<Rightarrow> error option \<times> 's exchange" where
  "callSet backend data lockID comment x =
     (let (r, s) = Set backend data lockID comment (store x)
      in (r, x\<lparr>store := s, calls := calls x @ [CallSet data lockID comment]\<rparr>))"

definition callDelete :: "'s Backend \<Rightarrow> 's exchange \<Rightarrow> error option \<times> 's exchange" where
  "callDelete backend x =
     (let (r, s) = Delete backend (store x)
      in (r, x\<lparr>store := s, calls := calls x @ [CallDelete]\<rparr>))"

definition callLock :: "'s Backend \<Rightarrow> LockInfo \<Rightarrow> 's exchange \<Rightarrow> (bool \<times> LockInfo \<times> error option) \<times> 's exchange" where
  "callLock backend lockData x =
     (let (r, s) = Lock backend lockData (store x)
      in (r, x\<lparr>store := s, calls := calls x @ [CallLock lockData]\<rparr>))"

definition callUnLock :: "'s Backend \<Rightarrow> LockInfo \<Rightarrow> 's exchange \<Rightarrow> error option \<times> 's exchange" where
  "callUnLock backend lockData x =
     (let (r, s) = UnLock backend lockData (store x)
      in (r, x\<lparr>store := s, calls := calls x @ [CallUnLock lockData]\<rparr>))"

definition callLockable :: "'s Backend \<Rightarrow> 's exchange \<Rightarrow> bool \<times> 's exchange" where
  "callLockable backend x =
     (Lockable backend (store x), x\<lparr>calls := calls x @ [CallLockable]\<rparr>)"

text \<open>\<open>case http.MethodGet\<close> (wrapper.go, lines 93 to 107).\<close>

definition caseGet :: "'s Backend \<Rightarrow> 's exchange \<Rightarrow> 's exchange" where
  "caseGet backend x =
     (let ((data, err), x1) = callGet backend x;
          x2 = ifErr err x1
      in case data of
           None \<Rightarrow> writeHeader StatusNotFound x2
         | Some d \<Rightarrow> writeBody d (writeHeader StatusOK x2))"

text \<open>\<open>case http.MethodPost\<close> (lines 108 to 122).\<close>

definition casePost :: "'s Backend \<Rightarrow> string \<Rightarrow> Request \<Rightarrow> 's exchange \<Rightarrow> 's exchange" where
  "casePost backend comment request x =
     (let (data, err) = Body request;
          x1 = ifErr err x;
          lockId = Values_Get (Query request) ''ID'';
          (err2, x2) = callSet backend data lockId comment x1;
          x3 = ifErr err2 x2
      in writeHeader StatusOK x3)"

text \<open>\<open>case http.MethodDelete\<close> (lines 123 to 130).\<close>

definition caseDelete :: "'s Backend \<Rightarrow> 's exchange \<Rightarrow> 's exchange" where
  "caseDelete backend x =
     (let (err, x1) = callDelete backend x;
          x2 = ifErr err x1
      in writeHeader StatusOK x2)"

text \<open>\<open>case "LOCK", "UNLOCK"\<close> (lines 135 to 172).\<close>

definition caseLock :: "json \<Rightarrow> 's Backend \<Rightarrow> Request \<Rightarrow> 's exchange \<Rightarrow> 's exchange" where
  "caseLock js backend request x =
     (let (data, err) = Body request;
          x1 = ifErr err x;
          (lockData, err2) = Unmarshal js data;
          x2 = ifErr err2 x1;
          x3 = (if Method request = ''LOCK'' then
                  (let ((ok, lock, err3), x4) = callLock backend lockData x2;
                       x5 = ifErr err3 x4
                   in if \<not> ok then
                        (let (data2, err4) = Marshal js lock;
                             x6 = ifErr err4 x5;
                             x7 = writeHeader StatusConflict x6
                         in writeBody data2 x7)
                      else x5)
                else
                  (let (err3, x4) = callUnLock backend lockData x2
                   in ifErr err3 x4))
      in writeHeader StatusOK x3)"

text \<open>The function \<open>backendHandler\<close> returns (lines 82 to 177). The check of the
  credentials writes the 401 response and does not return.\<close>

definition handlerFunc ::
  "json \<Rightarrow> 's Backend \<Rightarrow> string \<Rightarrow> string \<Rightarrow> string \<Rightarrow> Request \<Rightarrow> 's exchange \<Rightarrow> 's exchange" where
  "handlerFunc js backend comment authUser authPassword request x =
     (let (userRequest, passwordRequest, ok) = BasicAuth request;
          x1 = (if \<not> ok \<or> userRequest \<noteq> authUser \<or> passwordRequest \<noteq> authPassword
                then httpError ''Unauthorized'' StatusUnauthorized x else x)
      in if Method request = MethodGet then caseGet backend x1
         else if Method request = MethodPost then casePost backend comment request x1
         else if Method request = MethodDelete then caseDelete backend x1
         else
           (let (lockable, x2) = callLockable backend x1
            in if lockable \<and> (Method request = ''LOCK'' \<or> Method request = ''UNLOCK'')
               then caseLock js backend request x2
               else httpError ''invalid method'' StatusMethodNotAllowed x2))"

text \<open>
  \<open>backendHandler\<close> (lines 77 to 80): \<open>systemUser\<close> is the result of \<open>user.Current()\<close>,
  whose error is dropped; when the lookup fails the pointer is nil and reading
  \<open>systemUser.Name\<close> panics, so no handler is made (\<open>None\<close>).
\<close>

definition Sprintf_comment :: "string \<Rightarrow> string \<Rightarrow> string" where
  "Sprintf_comment action name =
     ''updated with terraform '' @ [CHR 0x27] @ action @ [CHR 0x27] @ '' by '' @ [CHR 0x27] @ name @ [CHR 0x27]"

definition backendHandler ::
  "json \<Rightarrow> 's Backend \<Rightarrow> string \<Rightarrow> string \<Rightarrow> string \<Rightarrow> string option
     \<Rightarrow> (Request \<Rightarrow> 's exchange \<Rightarrow> 's exchange) option" where
  "backendHandler js backend action authUser authPassword systemUser =
     (case systemUser of
        None \<Rightarrow> None
      | Some name \<Rightarrow>
          Some (handlerFunc js backend (Sprintf_comment action name) authUser authPassword))"

section \<open>The file backend\<close>

text \<open>
  The part of package os the file backend uses, over a file system that says three
  things. For a path, what a lookup finds there: nothing, a regular file with its
  content and whether the process may read it and may write it, a directory, or an
  error (permission denied on a directory of the path, a component that is not a
  directory). For a path, the error with which creating or removing the entry at the
  path fails, if it does (no such directory, permission denied on the directory,
  directory not empty). And the umask of the process.
\<close>

datatype errno = ENOENT | EACCES | EISDIR | ENOTDIR | ENOTEMPTY

datatype node =
    Missing
  | Regular bytes bool bool
  | Directory
  | Refused errno

record filesystem =
  nodes :: "string \<Rightarrow> node"
  entry :: "string \<Rightarrow> errno option"
  umask :: nat

datatype PathError = PathError string string errno

fun strerror :: "errno \<Rightarrow> string" where
  "strerror ENOENT = ''no such file or directory''"
| "strerror EACCES = ''permission denied''"
| "strerror EISDIR = ''is a directory''"
| "strerror ENOTDIR = ''not a directory''"
| "strerror ENOTEMPTY = ''directory not empty''"

fun PathError_Error :: "PathError \<Rightarrow> error" where
  "PathError_Error (PathError op path e) = op @ '' '' @ path @ '': '' @ strerror e"

text \<open>\<open>errors.Is(err, os.ErrNotExist)\<close>; it is false of a nil error.\<close>

fun Is_ErrNotExist :: "PathError option \<Rightarrow> bool" where
  "Is_ErrNotExist None = False"
| "Is_ErrNotExist (Some (PathError op path e)) = (e = ENOENT)"

definition Stat :: "filesystem \<Rightarrow> string \<Rightarrow> PathError option" where
  "Stat fs name =
     (case nodes fs name of
        Missing \<Rightarrow> Some (PathError ''stat'' name ENOENT)
      | Refused e \<Rightarrow> Some (PathError ''stat'' name e)
      | Regular d r w \<Rightarrow> None
      | Directory \<Rightarrow> None)"

text \<open>\<open>os.ReadFile\<close>: a failed open returns nil data; a failed read returns the (non-nil)
  bytes read before the error.\<close>

definition ReadFile :: "filesystem \<Rightarrow> string \<Rightarrow> bytes option \<times> PathError option" where
  "ReadFile fs name =
     (case nodes fs name of
        Missing \<Rightarrow> (None, Some (PathError ''open'' name ENOENT))
      | Refused e \<Rightarrow> (None, Some (PathError ''open'' name e))
      | Regular d r w \<Rightarrow>
          if r then (Some d, None) else (None, Some (PathError ''open'' name EACCES))
      | Directory \<Rightarrow> (Some [], Some (PathError ''read'' name EISDIR)))"

text \<open>Whether a file created with mode \<open>perm\<close> under the umask \<open>um\<close> has the
  permission \<open>flag\<close> (the owner's read bit 0400 is 256, the owner's write bit 0200 is 128):
  the mode of the new file is \<open>perm\<close> without the bits of the umask.\<close>

definition created_with :: "nat \<Rightarrow> nat \<Rightarrow> nat \<Rightarrow> bool" where
  "created_with flag perm um = (perm div flag mod 2 = 1 \<and> um div flag mod 2 = 0)"

text \<open>\<open>os.WriteFile(name, data, perm)\<close> opens with \<open>O_WRONLY|O_CREATE|O_TRUNC\<close>: an
  existing file keeps its permissions and must be writable; a new one is written
  whatever its mode, and is left with the owner's bits of \<open>perm\<close> that the umask does not
  clear.\<close>

definition WriteFile :: "string \<Rightarrow> bytes \<Rightarrow> nat \<Rightarrow> filesystem \<Rightarrow> PathError option \<times> filesystem" where
  "WriteFile name data perm fs =
     (case nodes fs name of
        Missing \<Rightarrow>
          (case entry fs name of
             Some e \<Rightarrow> (Some (PathError ''open'' name e), fs)
           | None \<Rightarrow>
               (None, fs\<lparr>nodes := (nodes fs)(name :=
                  Regular data (created_with 256 perm (umask fs))
                               (created_with 128 perm (umask fs)))\<rparr>))
      | Refused e \<Rightarrow> (Some (PathError ''open'' name e), fs)
      | Regular d r w \<Rightarrow>
          if w then (None, fs\<lparr>nodes := (nodes fs)(name := Regular data r w)\<rparr>)
          else (Some (PathError ''open'' name EACCES), fs)
      | Directory \<Rightarrow> (Some (PathError ''open'' name EISDIR), fs))"

text \<open>\<open>os.Remove\<close> of a file or of a directory.\<close>

definition Remove :: "string \<Rightarrow> filesystem \<Rightarrow> PathError option \<times> filesystem" where
  "Remove name fs =
     (case nodes fs name of
        Missing \<Rightarrow> (Some (PathError ''remove'' name ENOENT), fs)
      | Refused e \<Rightarrow> (Some (PathError ''remove'' name e), fs)
      | Regular d r w \<Rightarrow>
          (case entry fs name of
             Some e \<Rightarrow> (Some (PathError ''remove'' name e), fs)
           | None \<Rightarrow> (None, fs\<lparr>nodes := (nodes fs)(name := Missing)\<rparr>))
      | Directory \<Rightarrow>
          (case entry fs name of
             Some e \<Rightarrow> (Some (PathError ''remove'' name e), fs)
           | None \<Rightarrow> (None, fs\<lparr>nodes := (nodes fs)(name := Missing)\<rparr>)))"

text \<open>\<open>type Backend struct\<close> of backends/file/backend.go. The state of the file backend
  is the struct together with the file system. \<open>Set\<close> writes with mode 0644, which is
  420; it reads neither \<open>lockID\<close> nor \<open>comment\<close>.\<close>

record file_Backend =
  filePath :: string

type_synonym file_state = "file_Backend \<times> filesystem"

definition file_Config :: "env \<Rightarrow> file_state \<Rightarrow> error option \<times> file_state" where
  "file_Config e st =
     (case st of (f, fs) \<Rightarrow>
        (case e ''TF_STATE_WRAPPER_FILE_PATH'' of
           Some v \<Rightarrow> (None, (f\<lparr>filePath := v\<rparr>, fs))
         | None \<Rightarrow>
             (Some ([CHR 0x27] @ ''TF_STATE_WRAPPER_FILE_PATH'' @ [CHR 0x27] @ '' must be set''), (f, fs))))"

definition file_Get :: "file_state \<Rightarrow> (bytes option \<times> error option) \<times> file_state" where
  "file_Get st =
     (case st of (f, fs) \<Rightarrow>
        (let err = Stat fs (filePath f)
         in if Is_ErrNotExist err then ((None, None), (f, fs))
            else if err \<noteq> None then ((None, map_option PathError_Error err), (f, fs))
            else (let (data, err2) = ReadFile fs (filePath f)
                  in ((data, map_option PathError_Error err2), (f, fs)))))"

definition file_Set :: "bytes \<Rightarrow> string \<Rightarrow> string \<Rightarrow> file_state \<Rightarrow> error option \<times> file_state" where
  "file_Set data lockID comment st =
     (case st of (f, fs) \<Rightarrow>
        (let (err, fs2) = WriteFile (filePath f) data 420 fs
         in (map_option PathError_Error err, (f, fs2))))"

definition file_Delete :: "file_state \<Rightarrow> error option \<times> file_state" where
  "file_Delete st =
     (case st of (f, fs) \<Rightarrow>
        (let err = Stat fs (filePath f)
         in if Is_ErrNotExist err then (None, (f, fs))
            else if err \<noteq> None then (map_option PathError_Error err, (f, fs))
            else (let (err2, fs2) = Remove (filePath f) fs
                  in (map_option PathError_Error err2, (f, fs2)))))"

definition file_Lock :: "LockInfo \<Rightarrow> file_state \<Rightarrow> (bool \<times> LockInfo \<times> error option) \<times> file_state" where
  "file_Lock lockData st = ((False, zeroLockInfo, None), st)"

definition file_UnLock :: "LockInfo \<Rightarrow> file_state \<Rightarrow> error option \<times> file_state" where
  "file_UnLock lockData st = (None, st)"

definition file_Lockable :: "file_state \<Rightarrow> bool" where
  "file_Lockable st = False"

text \<open>\<open>var _ wrapper.Backend = &Backend{}\<close>: the file backend as a \<open>Backend\<close>.\<close>

definition fileBackend :: "file_state Backend" where
  "fileBackend =
     \<lparr>Config = file_Config, Get = file_Get, Set = file_Set, Delete = file_Delete,
      Lock = file_Lock, UnLock = file_UnLock, Lockable = file_Lockable\<rparr>"

section \<open>The orchestrator: Wrap\<close>

text \<open>\<open>var letters\<close> and \<open>randSeq\<close>. The random source is the sequence of its raw
  draws; \<open>Intn n\<close> panics unless \<open>n\<close> is positive and otherwise returns a draw reduced
  to \<open>[0, n)\<close>. A panic is \<open>None\<close>.\<close>

definition letters :: string where
  "letters = ''abcdefghijklmnopqrstuvwxyzABCDEFGHIJKLMNOPQRSTUVWXYZ''"

type_synonym Rand = "nat \<Rightarrow> nat"

definition Intn :: "Rand \<Rightarrow> nat \<Rightarrow> (nat \<times> Rand) option" where
  "Intn g n = (if n = 0 then None else Some (g 0 mod n, \<lambda>i. g (Suc i)))"

text \<open>The loop \<open>for i := range b\<close>, by the number of runes still to fill.\<close>

fun fill :: "nat \<Rightarrow> Rand \<Rightarrow> string option" where
  "fill 0 g = Some []"
| "fill (Suc k) g =
     (case Intn g (length letters) of
        None \<Rightarrow> None
      | Some (i, g2) \<Rightarrow>
          if i < length letters
          then (case fill k g2 of None \<Rightarrow> None | Some rest \<Rightarrow> Some (letters ! i # rest))
          else None)"

definition randSeq :: "nat \<Rightarrow> Rand \<Rightarrow> string option" where
  "randSeq n seed = fill n seed"

text \<open>The loop of lines 186 to 192: the first element of \<open>args\<close> that is not empty and
  does not start with a dash, the empty string when there is none.\<close>

fun terraformAction :: "string list \<Rightarrow> string" where
  "terraformAction [] = []"
| "terraformAction (arg # rest) =
     (if length arg > 0 \<and> arg ! 0 \<noteq> CHR ''-'' then arg else terraformAction rest)"

text \<open>\<open>fmt.Sprintf("%d", port)\<close> for a port number.\<close>

function itoa :: "nat \<Rightarrow> string" where
  "itoa n = (if n < 10 then [''0123456789'' ! n] else itoa (n div 10) @ [''0123456789'' ! (n mod 10)])"
  by pat_completeness auto
termination
  by (relation "measure (\<lambda>n. n)") auto

declare itoa.simps [simp del]

text \<open>\<open>url.URL{Scheme, Host, Path}.String()\<close> for a path that starts with a slash.\<close>

definition URL_String :: "string \<Rightarrow> string \<Rightarrow> string \<Rightarrow> string" where
  "URL_String scheme host path = scheme @ ''://'' @ host @ path"

text \<open>Lines 200 to 204: \<open>backendUrl.String()\<close> for the port of the listener.\<close>

definition backendUrl :: "nat \<Rightarrow> string" where
  "backendUrl port = URL_String ''http'' (''127.0.0.1:'' @ itoa port) ''/backend''"

text \<open>\<open>os.Setenv\<close>: refuses an empty key, a key with \<open>=\<close> or a NUL byte in it, and a value
  with a NUL byte in it; otherwise it changes the environment of the process itself.\<close>

definition Setenv :: "string \<Rightarrow> string \<Rightarrow> env \<Rightarrow> error option \<times> env" where
  "Setenv key v e =
     (if key = [] \<or> CHR ''='' \<in> set key \<or> CHR 0x00 \<in> set key \<or> CHR 0x00 \<in> set v
      then (Some ''setenv: invalid argument'', e)
      else (None, e(key \<mapsto> v)))"

text \<open>What \<open>terraform.Run()\<close> returns: nil, an \<open>*exec.ExitError\<close> (with the value of its
  \<open>ExitCode()\<close>: the status the child exited with), or another error.\<close>

datatype RunResult = RunNil | ExitError int | RunError error

text \<open>How \<open>Wrap\<close> ends the process: \<open>os.Exit(code)\<close>, \<open>log.Fatal(message)\<close>, or the panic
  of a nil dereference.\<close>

datatype Termination = Exit int | Fatal string | Panic

text \<open>
  What \<open>Wrap\<close> takes from the system: the result of \<open>createListener\<close> (the port of the
  bound listener, or the error), the random source, the \<open>Name\<close> of \<open>user.Current()\<close>
  (none when the lookup fails), and how the command \<open>args[0] args[1:]\<close> ends when it is
  run in a given environment. \<open>exec.Cmd.Env\<close> is left nil, so the child runs in the
  environment of the process at that time.

  The goroutine that serves the listener is not part of the model, since it cannot end
  the process: \<open>http.Serve\<close> returns a non-nil error, and \<open>errors.As(err, &closedErr)\<close>
  with \<open>closedErr\<close> of type \<open>error\<close> holds of every non-nil error, so the goroutine
  returns. The model follows one request at a time through the handler; it does not
  interleave requests that are served concurrently.
\<close>

record system =
  createListener :: "error + nat"
  NewSource :: Rand
  Current :: "string option"
  Run :: "string \<Rightarrow> string list \<Rightarrow> env \<Rightarrow> RunResult"

text \<open>
  The result: how the process ends, its own environment at that point, the command and
  the environment of the child if one was run, the handler registered on the mux if
  one was, and the backend's state after \<open>Config\<close>.
\<close>

record 's wrapped =
  outcome :: Termination
  environ :: env
  child :: "(string \<times> string list \<times> env) option"
  handler :: "(Request \<Rightarrow> 's exchange \<Rightarrow> 's exchange) option"
  configured :: 's

text \<open>Lines 223 to 248: the connection variables are set with \<open>os.Setenv\<close>.\<close>

definition publish :: "bool \<Rightarrow> string \<Rightarrow> string \<Rightarrow> string \<Rightarrow> env \<Rightarrow> error option \<times> env" where
  "publish lockable address authUser authPassword e =
     (case Setenv ''TF_HTTP_ADDRESS'' address e of
        (Some err, e1) \<Rightarrow> (Some err, e1)
      | (None, e1) \<Rightarrow>
     (case Setenv ''TF_HTTP_USERNAME'' authUser e1 of
        (Some err, e2) \<Rightarrow> (Some err, e2)
      | (None, e2) \<Rightarrow>
     (case Setenv ''TF_HTTP_PASSWORD'' authPassword e2 of
        (Some err, e3) \<Rightarrow> (Some err, e3)
      | (None, e3) \<Rightarrow>
     if lockable then
       (case Setenv ''TF_HTTP_LOCK_ADDRESS'' address e3 of
          (Some err, e4) \<Rightarrow> (Some err, e4)
        | (None, e4) \<Rightarrow>
       (case Setenv ''TF_HTTP_UNLOCK_ADDRESS'' address e4 of
          (Some err, e5) \<Rightarrow> (Some err, e5)
        | (None, e5) \<Rightarrow> (None, e5)))
     else (None, e3))))"

text \<open>Lines 250 to 266: the child is run and its result decides how the process ends.\<close>

definition supervise :: "system \<Rightarrow> string list \<Rightarrow> env \<Rightarrow> Termination \<times> (string \<times> string list \<times> env) option" where
  "supervise sys args e =
     (if length args > 0 then
        (case Run sys (hd args) (tl args) e of
           ExitError code \<Rightarrow> (Exit code, Some (hd args, tl args, e))
         | RunError err \<Rightarrow> (Fatal err, Some (hd args, tl args, e))
         | RunNil \<Rightarrow> (Exit 0, Some (hd args, tl args, e)))
      else (Fatal ''usage: ./wrapper terraform plan|apply|validate...'', None))"

definition Wrap :: "json \<Rightarrow> system \<Rightarrow> 's Backend \<Rightarrow> string list \<Rightarrow> 's \<Rightarrow> env \<Rightarrow> 's wrapped" where
  "Wrap js sys backend args s e =
     (case Config backend e s of
        (Some err, s1) \<Rightarrow>
          \<lparr>outcome = Fatal err, environ = e, child = None, handler = None, configured = s1\<rparr>
      | (None, s1) \<Rightarrow>
     (case createListener sys of
        Inl err \<Rightarrow>
          \<lparr>outcome = Fatal err, environ = e, child = None, handler = None, configured = s1\<rparr>
      | Inr port \<Rightarrow>
     (let authUser = ''auth''
      in case randSeq 32 (NewSource sys) of
        None \<Rightarrow>
          \<lparr>outcome = Panic, environ = e, child = None, handler = None, configured = s1\<rparr>
      | Some authPassword \<Rightarrow>
     (case backendHandler js backend (terraformAction args) authUser authPassword (Current sys) of
        None \<Rightarrow>
          \<lparr>outcome = Panic, environ = e, child = None, handler = None, configured = s1\<rparr>
      | Some h \<Rightarrow>
     (case publish (Lockable backend s1) (backendUrl port) authUser authPassword e of
        (Some err, e1) \<Rightarrow>
          \<lparr>outcome = Fatal err, environ = e1, child = None, handler = Some h, configured = s1\<rparr>
      | (None, e1) \<Rightarrow>
          (let (t, c) = supervise sys args e1
           in \<lparr>outcome = t, environ = e1, child = c, handler = Some h, configured = s1\<rparr>))))))"

section \<open>Auxiliary notions and instances for closed examples\<close>

text \<open>A response has been answered with status \<open>c\<close> and a body that starts with \<open>p\<close>.\<close>

definition answered :: "nat \<Rightarrow> bytes \<Rightarrow> ResponseWriter \<Rightarrow> bool" where
  "answered c p w = (statusCode w = Some c \<and> prefix p (written w))"

text \<open>The response \<open>w\<close> of a request that was refused with 401 and processed all the
  same, against the response \<open>v\<close> of the same processing without the refusal: \<open>w\<close> has
  status 401 and its body is \<open>p\<close> followed by the body of \<open>v\<close>.\<close>

definition shadowed :: "bytes \<Rightarrow> ResponseWriter \<Rightarrow> ResponseWriter \<Rightarrow> bool" where
  "shadowed p w v =
     (statusCode w = Some StatusUnauthorized \<and> written w = p @ written v
      \<and> (case statusCode v of None \<Rightarrow> True | Some c \<Rightarrow> bodyAllowedForStatus c))"

text \<open>
  The values of \<open>json.Marshal\<close> and \<open>json.Unmarshal\<close> at the inputs of the closed
  examples. \<open>lockInfoText i\<close> is the text \<open>json.Marshal\<close> returns for a \<open>LockInfo\<close> whose
  \<open>ID\<close> is written as \<open>i\<close> and whose other fields are zero (the zero time is written
  as year 1), and \<open>idOnlyText i\<close> is a JSON object with the one member \<open>ID\<close>.
  \<open>Marshal\<close> coerces a string to valid UTF-8: the byte 0xFF is written as the escape
  of the replacement character U+FFFD, which \<open>Unmarshal\<close> reads as the three bytes
  EF BF BD. \<open>Unmarshal\<close> of an empty input fails with
  \<open>unexpected end of JSON input\<close>. At every other input the codec reports an error of
  its own; no example uses it there.
\<close>

definition quoted :: "string \<Rightarrow> string" where
  "quoted s = [CHR 0x22] @ s @ [CHR 0x22]"

definition lockInfoText :: "string \<Rightarrow> string" where
  "lockInfoText i =
     ''{'' @ quoted ''ID'' @ '':'' @ quoted i
     @ '','' @ quoted ''Operation'' @ '':'' @ quoted []
     @ '','' @ quoted ''Info'' @ '':'' @ quoted []
     @ '','' @ quoted ''Who'' @ '':'' @ quoted []
     @ '','' @ quoted ''Version'' @ '':'' @ quoted []
     @ '','' @ quoted ''Created'' @ '':'' @ quoted ''0001-01-01T00:00:00Z''
     @ '','' @ quoted ''Path'' @ '':'' @ quoted []
     @ ''}''"

definition idOnlyText :: "string \<Rightarrow> string" where
  "idOnlyText i = ''{'' @ quoted ''ID'' @ '':'' @ quoted i @ ''}''"

definition exampleJson :: json where
  "exampleJson =
     \<lparr>Marshal = (\<lambda>l.
        if l = zeroLockInfo\<lparr>ID := ''first''\<rparr> then (lockInfoText ''first'', None)
        else if l = zeroLockInfo\<lparr>ID := [CHR 0xFF]\<rparr>
          then (lockInfoText ([CHR 0x5C] @ ''ufffd''), None)
        else ([], Some ''json: a value outside the examples'')),
      Unmarshal = (\<lambda>d.
        if d = [] then (zeroLockInfo, Some ''unexpected end of JSON input'')
        else if d = idOnlyText ''second'' then (zeroLockInfo\<lparr>ID := ''second''\<rparr>, None)
        else if d = lockInfoText ''first'' then (zeroLockInfo\<lparr>ID := ''first''\<rparr>, None)
        else if d = lockInfoText ([CHR 0x5C] @ ''ufffd'')
          then (zeroLockInfo\<lparr>ID := [CHR 0xEF, CHR 0xBF, CHR 0xBD]\<rparr>, None)
        else (zeroLockInfo, Some ''json: an input outside the examples''))\<rparr>"

text \<open>A lockable backend for closed examples: its state is the lock that is held, if
  any; it holds no payload.\<close>

definition slotBackend :: "LockInfo option Backend" where
  "slotBackend =
     \<lparr>Config = (\<lambda>e s. (None, s)),
      Get = (\<lambda>s. ((None, None), s)),
      Set = (\<lambda>d l c s. (None, s)),
      Delete = (\<lambda>s. (None, s)),
      Lock = (\<lambda>i s. case s of None \<Rightarrow> ((True, i, None), Some i)
                              | Some held \<Rightarrow> ((False, held, None), s)),
      UnLock = (\<lambda>i s. (None, None)),
      Lockable = (\<lambda>s. True)\<rparr>"

text \<open>A request with the given method, credentials and body, read without error, and
  with the given lock ID in its query.\<close>

definition exampleRequest :: "string \<Rightarrow> string \<times> string \<times> bool \<Rightarrow> bytes \<Rightarrow> string \<Rightarrow> Request" where
  "exampleRequest m auth b lockId =
     \<lparr>Method = m, BasicAuth = auth, Body = (b, None), Query = [''ID'' \<mapsto> [lockId]]\<rparr>"

text \<open>A file system with one entry, in which every entry may be created and removed,
  under the umask 022, which is 18.\<close>

definition disk :: "string \<Rightarrow> node \<Rightarrow> filesystem" where
  "disk name n =
     \<lparr>nodes = (\<lambda>p. if p = name then n else Missing), entry = (\<lambda>p. None), umask = 18\<rparr>"

text \<open>A system whose listener gets port 40123, whose user is alice, and whose child ends
  as given.\<close>

definition exampleSystem :: "RunResult \<Rightarrow> system" where
  "exampleSystem r =
     \<lparr>createListener = Inr 40123, NewSource = (\<lambda>i. 7 * i), Current = Some ''alice'',
      Run = (\<lambda>cmd argv e. r)\<rparr>"

section \<open>Properties of the response writer and of the handler's cases\<close>

lemma ifErr_calls [simp]: "calls (ifErr err x) = calls x"
  by (simp add: ifErr_def returnError_def httpError_def split: option.splits)
lemma ifErr_store [simp]: "store (ifErr err x) = store x"
  by (simp add: ifErr_def returnError_def httpError_def split: option.splits)
lemma httpError_calls [simp]: "calls (httpError e c x) = calls x"
  by (simp add: httpError_def)
lemma httpError_store [simp]: "store (httpError e c x) = store x"
  by (simp add: httpError_def)
lemma writeHeader_calls [simp]: "calls (writeHeader c x) = calls x"
  by (simp add: writeHeader_def)
lemma writeHeader_store [simp]: "store (writeHeader c x) = store x"
  by (simp add: writeHeader_def)
lemma writeBody_calls [simp]: "calls (writeBody d x) = calls x"
  by (simp add: writeBody_def)
lemma writeBody_store [simp]: "store (writeBody d x) = store x"
  by (simp add: writeBody_def)

lemma caseGet_calls: "calls (caseGet backend x) = calls x @ [CallGet]"
  by (simp add: caseGet_def callGet_def Let_def split: prod.splits option.splits)
lemma caseGet_store: "store (caseGet backend x) = snd (Get backend (store x))"
  by (simp add: caseGet_def callGet_def Let_def split: prod.splits option.splits)

lemma casePost_calls:
  "calls (casePost backend comment request x) =
     calls x @ [CallSet (fst (Body request)) (Values_Get (Query request) ''ID'') comment]"
  by (simp add: casePost_def callSet_def Let_def split: prod.splits option.splits)
lemma casePost_store:
  "store (casePost backend comment request x) =
     snd (Set backend (fst (Body request)) (Values_Get (Query request) ''ID'') comment (store x))"
  by (simp add: casePost_def callSet_def Let_def split: prod.splits option.splits)

lemma caseDelete_calls: "calls (caseDelete backend x) = calls x @ [CallDelete]"
  by (simp add: caseDelete_def callDelete_def Let_def split: prod.splits option.splits)
lemma caseDelete_store: "store (caseDelete backend x) = snd (Delete backend (store x))"
  by (simp add: caseDelete_def callDelete_def Let_def split: prod.splits option.splits)

lemma caseLock_calls:
  "calls (caseLock js backend request x) =
     calls x @
       (if Method request = ''LOCK'' then [CallLock (fst (Unmarshal js (fst (Body request))))]
        else [CallUnLock (fst (Unmarshal js (fst (Body request))))])"
  by (auto simp: caseLock_def callLock_def callUnLock_def Let_def split: prod.splits)
lemma caseLock_store:
  "store (caseLock js backend request x) =
       (if Method request = ''LOCK''
        then snd (Lock backend (fst (Unmarshal js (fst (Body request)))) (store x))
        else snd (UnLock backend (fst (Unmarshal js (fst (Body request)))) (store x)))"
  by (auto simp: caseLock_def callLock_def callUnLock_def Let_def split: prod.splits)

lemmas case_calls = caseGet_calls casePost_calls caseDelete_calls caseLock_calls
lemmas case_store = caseGet_store casePost_store caseDelete_store caseLock_store

lemma handler_calls:
  "calls (handlerFunc js backend comment authUser authPassword request x) =
   calls x @
     (if Method request = MethodGet then [CallGet]
      else if Method request = MethodPost
        then [CallSet (fst (Body request)) (Values_Get (Query request) ''ID'') comment]
      else if Method request = MethodDelete then [CallDelete]
      else CallLockable #
        (if Lockable backend (store x) \<and> Method request = ''LOCK''
           then [CallLock (fst (Unmarshal js (fst (Body request))))]
         else if Lockable backend (store x) \<and> Method request = ''UNLOCK''
           then [CallUnLock (fst (Unmarshal js (fst (Body request))))]
         else []))"
  by (simp add: handlerFunc_def case_calls callLockable_def Let_def split: prod.splits)

lemma handler_store:
  "store (handlerFunc js backend comment authUser authPassword request x) =
     (if Method request = MethodGet then snd (Get backend (store x))
      else if Method request = MethodPost
        then snd (Set backend (fst (Body request)) (Values_Get (Query request) ''ID'') comment (store x))
      else if Method request = MethodDelete then snd (Delete backend (store x))
      else if Lockable backend (store x) \<and> Method request = ''LOCK''
        then snd (Lock backend (fst (Unmarshal js (fst (Body request)))) (store x))
      else if Lockable backend (store x) \<and> Method request = ''UNLOCK''
        then snd (UnLock backend (fst (Unmarshal js (fst (Body request)))) (store x))
      else store x)"
  by (simp add: handlerFunc_def case_store callLockable_def Let_def split: prod.splits)

lemma answered_WriteHeader [simp]: "answered c p w \<Longrightarrow> answered c p (WriteHeader k w)"
  by (simp add: answered_def WriteHeader_def)

lemma answered_Write [simp]: "answered c p w \<Longrightarrow> answered c p (snd (Write d w))"
  by (simp add: answered_def Write_def)

lemma answered_Error [simp]: "answered c p w \<Longrightarrow> answered c p (Error w e k)"
  by (simp add: Error_def)

lemma writer_writeHeader [simp]: "writer (writeHeader k x) = WriteHeader k (writer x)"
  by (simp add: writeHeader_def)

lemma writer_writeBody [simp]: "writer (writeBody d x) = snd (Write d (writer x))"
  by (simp add: writeBody_def)

lemma writer_httpError [simp]: "writer (httpError e k x) = Error (writer x) e k"
  by (simp add: httpError_def)

lemma writer_ifErr [simp]:
  "writer (ifErr err x) =
     (case err of None \<Rightarrow> writer x | Some e \<Rightarrow> Error (writer x) e StatusInternalServerError)"
  by (simp add: ifErr_def returnError_def split: option.splits)

lemma answered_caseGet:
  "answered c p (writer x) \<Longrightarrow> answered c p (writer (caseGet backend x))"
  by (simp add: caseGet_def callGet_def Let_def split: prod.splits option.splits)

lemma answered_casePost:
  "answered c p (writer x) \<Longrightarrow> answered c p (writer (casePost backend comment request x))"
  by (simp add: casePost_def callSet_def Let_def split: prod.splits option.splits)

lemma answered_caseDelete:
  "answered c p (writer x) \<Longrightarrow> answered c p (writer (caseDelete backend x))"
  by (simp add: caseDelete_def callDelete_def Let_def split: prod.splits option.splits)

lemma answered_caseLock:
  "answered c p (writer x) \<Longrightarrow> answered c p (writer (caseLock js backend request x))"
  by (auto simp: caseLock_def callLock_def callUnLock_def Let_def split: prod.splits option.splits)

lemma answered_handlerFunc:
  "answered c p (writer x) \<Longrightarrow>
     answered c p (writer (handlerFunc js backend comment authUser authPassword request x))"
  by (simp add: handlerFunc_def callLockable_def Let_def
        answered_caseGet answered_casePost answered_caseDelete answered_caseLock split: prod.splits)

lemma answered_Unauthorized:
  "answered 401 (''Unauthorized'' @ [CHR 0x0A]) (Error newResponseWriter ''Unauthorized'' StatusUnauthorized)"
  by (simp add: answered_def newResponseWriter_def Error_def
        Write_def WriteHeader_def bodyAllowedForStatus_def)


lemma backendHandler_Some:
  "backendHandler js backend action authUser authPassword systemUser = Some h \<Longrightarrow>
     \<exists>name. systemUser = Some name \<and>
       h = handlerFunc js backend (Sprintf_comment action name) authUser authPassword"
  by (auto simp: backendHandler_def split: option.splits)

lemmas response_defs = newResponseWriter_def Error_def Write_def WriteHeader_def
  bodyAllowedForStatus_def

lemma casePost_BasicAuth [simp]:
  "casePost backend comment (request\<lparr>BasicAuth := v\<rparr>) x = casePost backend comment request x"
  by (simp add: casePost_def)

lemma caseLock_BasicAuth [simp]:
  "caseLock js backend (request\<lparr>BasicAuth := v\<rparr>) x = caseLock js backend request x"
  by (simp add: caseLock_def)

lemma handlerFunc_unauthorized:
  assumes "BasicAuth request = (userRequest, passwordRequest, ok)"
    and "\<not> ok \<or> userRequest \<noteq> authUser \<or> passwordRequest \<noteq> authPassword"
  shows "handlerFunc js backend comment authUser authPassword request x =
     handlerFunc js backend comment authUser authPassword
       (request\<lparr>BasicAuth := (authUser, authPassword, True)\<rparr>)
       (httpError ''Unauthorized'' StatusUnauthorized x)"
  using assms by (auto simp: handlerFunc_def Let_def split: prod.splits)

lemma bodyAllowed_used [simp]:
  "bodyAllowedForStatus StatusOK" "bodyAllowedForStatus StatusUnauthorized"
  "bodyAllowedForStatus StatusNotFound" "bodyAllowedForStatus StatusMethodNotAllowed"
  "bodyAllowedForStatus StatusConflict" "bodyAllowedForStatus StatusInternalServerError"
  by (simp_all add: bodyAllowedForStatus_def)

lemma shadowed_WriteHeader [simp]:
  "shadowed p w v \<Longrightarrow> bodyAllowedForStatus k \<Longrightarrow> shadowed p (WriteHeader k w) (WriteHeader k v)"
  by (auto simp: shadowed_def WriteHeader_def split: option.splits)

lemma shadowed_Write [simp]:
  "shadowed p w v \<Longrightarrow> shadowed p (snd (Write d w)) (snd (Write d v))"
  by (auto simp: shadowed_def Write_def WriteHeader_def split: option.splits)

lemma shadowed_Error [simp]:
  "shadowed p w v \<Longrightarrow> bodyAllowedForStatus k \<Longrightarrow> shadowed p (Error w e k) (Error v e k)"
  by (simp add: Error_def)

lemma shadowed_caseGet:
  "shadowed p (writer x) (writer y) \<Longrightarrow> store x = store y \<Longrightarrow>
     shadowed p (writer (caseGet backend x)) (writer (caseGet backend y))"
  by (simp add: caseGet_def callGet_def Let_def split: prod.splits option.splits)

lemma shadowed_casePost:
  "shadowed p (writer x) (writer y) \<Longrightarrow> store x = store y \<Longrightarrow>
     shadowed p (writer (casePost backend comment request x))
       (writer (casePost backend comment request y))"
  by (simp add: casePost_def callSet_def Let_def split: prod.splits option.splits)

lemma shadowed_caseDelete:
  "shadowed p (writer x) (writer y) \<Longrightarrow> store x = store y \<Longrightarrow>
     shadowed p (writer (caseDelete backend x)) (writer (caseDelete backend y))"
  by (simp add: caseDelete_def callDelete_def Let_def split: prod.splits option.splits)

lemma shadowed_caseLock:
  "shadowed p (writer x) (writer y) \<Longrightarrow> store x = store y \<Longrightarrow>
     shadowed p (writer (caseLock js backend request x)) (writer (caseLock js backend request y))"
  by (auto simp: caseLock_def callLock_def callUnLock_def Let_def
        split: prod.splits option.splits)

lemma shadowed_handlerFunc:
  "BasicAuth request = (authUser, authPassword, True) \<Longrightarrow>
   shadowed p (writer x) (writer y) \<Longrightarrow> store x = store y \<Longrightarrow>
     shadowed p (writer (handlerFunc js backend comment authUser authPassword request x))
       (writer (handlerFunc js backend comment authUser authPassword request y))"
  by (auto simp: handlerFunc_def callLockable_def Let_def
        shadowed_caseGet shadowed_casePost shadowed_caseDelete shadowed_caseLock
        split: prod.splits)

lemma shadowed_Unauthorized:
  "shadowed (''Unauthorized'' @ [CHR 0x0A])
     (Error newResponseWriter ''Unauthorized'' StatusUnauthorized) newResponseWriter"
  by (simp add: shadowed_def response_defs)

section \<open>Authentication\<close>

text \<open>
  C1. A request whose Basic-auth credentials are missing or do not match the session's
  user name and password is answered with status 401, and it is processed all the same.
  The handler dispatches on the method and makes the backend call of that method:
  \<open>Get\<close> for GET; \<open>Set\<close> with the body, the lock ID and the comment for POST; \<open>Delete\<close>
  for DELETE; for any other method \<open>Lockable\<close>, followed by \<open>Lock\<close> or \<open>UnLock\<close> with the
  decoded \<open>LockInfo\<close> when the backend is lockable and the method is LOCK or UNLOCK.
  The backend is left in the state that call leaves it in. The body of the response is
  the line \<open>Unauthorized\<close> followed by the body that the same request gets when it is
  sent with the right credentials, and the calls and the backend's state are those of
  that request.
\<close>

theorem unauthorized_continues:
  assumes h: "backendHandler js backend action authUser authPassword systemUser = Some h"
    and c: "BasicAuth request = (userRequest, passwordRequest, ok)"
    and bad: "\<not> ok \<or> userRequest \<noteq> authUser \<or> passwordRequest \<noteq> authPassword"
    and x: "x = h request (newExchange s)"
    and y: "y = h (request\<lparr>BasicAuth := (authUser, authPassword, True)\<rparr>) (newExchange s)"
  shows "\<exists>name.
       systemUser = Some name
     \<and> statusCode (writer x) = Some StatusUnauthorized
     \<and> written (writer x) = ''Unauthorized'' @ [CHR 0x0A] @ written (writer y)
     \<and> calls x =
         (if Method request = MethodGet then [CallGet]
          else if Method request = MethodPost
            then [CallSet (fst (Body request)) (Values_Get (Query request) ''ID'')
                    (Sprintf_comment action name)]
          else if Method request = MethodDelete then [CallDelete]
          else CallLockable #
            (if Lockable backend s \<and> Method request = ''LOCK''
               then [CallLock (fst (Unmarshal js (fst (Body request))))]
             else if Lockable backend s \<and> Method request = ''UNLOCK''
               then [CallUnLock (fst (Unmarshal js (fst (Body request))))]
             else []))
     \<and> store x =
         (if Method request = MethodGet then snd (Get backend s)
          else if Method request = MethodPost
            then snd (Set backend (fst (Body request)) (Values_Get (Query request) ''ID'')
                   (Sprintf_comment action name) s)
          else if Method request = MethodDelete then snd (Delete backend s)
          else if Lockable backend s \<and> Method request = ''LOCK''
            then snd (Lock backend (fst (Unmarshal js (fst (Body request)))) s)
          else if Lockable backend s \<and> Method request = ''UNLOCK''
            then snd (UnLock backend (fst (Unmarshal js (fst (Body request)))) s)
          else s)
     \<and> calls x = calls y
     \<and> store x = store y"
proof -
  from backendHandler_Some [OF h] obtain name where
    n: "systemUser = Some name"
    and hf: "h = handlerFunc js backend (Sprintf_comment action name) authUser authPassword"
    by blast
  let ?r = "request\<lparr>BasicAuth := (authUser, authPassword, True)\<rparr>"
  let ?x1 = "httpError ''Unauthorized'' StatusUnauthorized (newExchange s)"
  have xr: "x = handlerFunc js backend (Sprintf_comment action name) authUser authPassword ?r ?x1"
    by (simp add: x hf handlerFunc_unauthorized [OF c bad])
  have yr: "y = handlerFunc js backend (Sprintf_comment action name) authUser authPassword ?r
      (newExchange s)"
    by (simp add: y hf)
  have a: "BasicAuth ?r = (authUser, authPassword, True)"
    by simp
  have s0: "shadowed (''Unauthorized'' @ [CHR 0x0A]) (writer ?x1) (writer (newExchange s))"
    using shadowed_Unauthorized by (simp add: newExchange_def)
  have s1: "store ?x1 = store (newExchange s)"
    by simp
  have "shadowed (''Unauthorized'' @ [CHR 0x0A]) (writer x) (writer y)"
    unfolding xr yr by (rule shadowed_handlerFunc [OF a s0 s1])
  then have w: "statusCode (writer x) = Some StatusUnauthorized"
    and b: "written (writer x) = ''Unauthorized'' @ [CHR 0x0A] @ written (writer y)"
    by (simp_all add: shadowed_def)
  have cs: "calls x =
         (if Method request = MethodGet then [CallGet]
          else if Method request = MethodPost
            then [CallSet (fst (Body request)) (Values_Get (Query request) ''ID'')
                    (Sprintf_comment action name)]
          else if Method request = MethodDelete then [CallDelete]
          else CallLockable #
            (if Lockable backend s \<and> Method request = ''LOCK''
               then [CallLock (fst (Unmarshal js (fst (Body request))))]
             else if Lockable backend s \<and> Method request = ''UNLOCK''
               then [CallUnLock (fst (Unmarshal js (fst (Body request))))]
             else []))"
    by (simp add: x hf handler_calls newExchange_def)
  have st: "store x =
         (if Method request = MethodGet then snd (Get backend s)
          else if Method request = MethodPost
            then snd (Set backend (fst (Body request)) (Values_Get (Query request) ''ID'')
                   (Sprintf_comment action name) s)
          else if Method request = MethodDelete then snd (Delete backend s)
          else if Lockable backend s \<and> Method request = ''LOCK''
            then snd (Lock backend (fst (Unmarshal js (fst (Body request)))) s)
          else if Lockable backend s \<and> Method request = ''UNLOCK''
            then snd (UnLock backend (fst (Unmarshal js (fst (Body request)))) s)
          else s)"
    by (simp add: x hf handler_store newExchange_def)
  have cy: "calls x = calls y"
    by (simp add: x y hf handler_calls)
  have sy: "store x = store y"
    by (simp add: x y hf handler_store)
  from n w b cs st cy sy show ?thesis
    by blast
qed

theorem unauthorized_continues_witness:
  "statusCode (writer (handlerFunc exampleJson fileBackend (Sprintf_comment ''plan'' ''alice'')
       ''auth'' ''secret'' (exampleRequest ''DELETE'' ([], [], False) [] [])
       (newExchange (\<lparr>filePath = ''/state''\<rparr>, disk ''/state'' (Regular ''v1'' True True)))))
     = Some StatusUnauthorized
   \<and> calls (handlerFunc exampleJson fileBackend (Sprintf_comment ''plan'' ''alice'')
       ''auth'' ''secret'' (exampleRequest ''DELETE'' ([], [], False) [] [])
       (newExchange (\<lparr>filePath = ''/state''\<rparr>, disk ''/state'' (Regular ''v1'' True True))))
     = [CallDelete]
   \<and> nodes (snd (store (handlerFunc exampleJson fileBackend (Sprintf_comment ''plan'' ''alice'')
       ''auth'' ''secret'' (exampleRequest ''DELETE'' ([], [], False) [] [])
       (newExchange (\<lparr>filePath = ''/state''\<rparr>, disk ''/state'' (Regular ''v1'' True True))))))
       ''/state''
     = Missing"
proof -
  let ?r = "exampleRequest ''DELETE'' ([], [], False) [] []"
  let ?s = "(\<lparr>filePath = ''/state''\<rparr>, disk ''/state'' (Regular ''v1'' True True))"
  have 1: "backendHandler exampleJson fileBackend ''plan'' ''auth'' ''secret'' (Some ''alice'') =
      Some (handlerFunc exampleJson fileBackend (Sprintf_comment ''plan'' ''alice'')
        ''auth'' ''secret'')"
    by (simp add: backendHandler_def)
  have 2: "BasicAuth ?r = ([], [], False)"
    by (simp add: exampleRequest_def)
  have 3: "\<not> False \<or> [] \<noteq> ''auth'' \<or> [] \<noteq> ''secret''"
    by simp
  have 4: "Method ?r = MethodDelete"
    by (simp add: exampleRequest_def)
  have 5: "nodes (snd (snd (Delete fileBackend ?s))) ''/state'' = Missing"
    by (simp add: fileBackend_def file_Delete_def Stat_def Remove_def disk_def)
  from unauthorized_continues [OF 1 2 3 refl refl, of ?s] 4 5 show ?thesis
    by auto
qed

section \<open>The orchestrator's set-up\<close>

lemma length_letters: "length letters = 52"
  by (simp add: letters_def)

lemma fill_Some: "\<exists>p. fill k g = Some p \<and> length p = k \<and> set p \<subseteq> set letters"
proof (induction k arbitrary: g)
  case 0
  show ?case by simp
next
  case (Suc k)
  obtain p where p: "fill k (\<lambda>i. g (Suc i)) = Some p" "length p = k" "set p \<subseteq> set letters"
    using Suc.IH by blast
  have i: "g 0 mod 52 < length letters"
    by (simp add: length_letters)
  have "letters ! (g 0 mod 52) \<in> set letters"
    using i by (rule nth_mem)
  then show ?case
    using p i by (simp add: Intn_def length_letters)
qed


lemma letters_no_NUL: "CHR 0x00 \<notin> set letters"
  by (simp add: letters_def)

lemma digit_no_NUL: "d < 10 \<Longrightarrow> ''0123456789'' ! d \<noteq> CHR 0x00"
proof -
  assume "d < 10"
  then have "''0123456789'' ! d \<in> set ''0123456789''"
    by (intro nth_mem) simp
  then show ?thesis by auto
qed

lemma itoa_no_NUL: "CHR 0x00 \<notin> set (itoa n)"
proof (induction n rule: itoa.induct)
  case (1 n)
  show ?case
  proof (cases "n < 10")
    case True
    then show ?thesis
      using digit_no_NUL [of n] by (subst itoa.simps) auto
  next
    case False
    then show ?thesis
      using 1 digit_no_NUL [of "n mod 10"] by (subst itoa.simps) auto
  qed
qed

lemma publish_ok:
  assumes "CHR 0x00 \<notin> set url" "CHR 0x00 \<notin> set u" "CHR 0x00 \<notin> set pw"
  shows "publish l url u pw e =
     (None,
      if l then e(''TF_HTTP_ADDRESS'' \<mapsto> url, ''TF_HTTP_USERNAME'' \<mapsto> u,
                  ''TF_HTTP_PASSWORD'' \<mapsto> pw, ''TF_HTTP_LOCK_ADDRESS'' \<mapsto> url,
                  ''TF_HTTP_UNLOCK_ADDRESS'' \<mapsto> url)
      else e(''TF_HTTP_ADDRESS'' \<mapsto> url, ''TF_HTTP_USERNAME'' \<mapsto> u,
             ''TF_HTTP_PASSWORD'' \<mapsto> pw))"
  using assms by (simp add: publish_def Setenv_def)

lemma backendUrl_no_NUL: "CHR 0x00 \<notin> set (backendUrl port)"
  by (simp add: backendUrl_def URL_String_def itoa_no_NUL)


lemma Wrap_configured:
  assumes c: "Config backend e s = (None, s1)"
    and l: "createListener sys = Inr port"
    and n: "Current sys = Some name"
  shows "\<exists>pw. randSeq 32 (NewSource sys) = Some pw \<and> length pw = 32 \<and> set pw \<subseteq> set letters
     \<and> Wrap js sys backend args s e =
         (let e1 = (if Lockable backend s1
                    then e(''TF_HTTP_ADDRESS'' \<mapsto> backendUrl port, ''TF_HTTP_USERNAME'' \<mapsto> ''auth'',
                           ''TF_HTTP_PASSWORD'' \<mapsto> pw, ''TF_HTTP_LOCK_ADDRESS'' \<mapsto> backendUrl port,
                           ''TF_HTTP_UNLOCK_ADDRESS'' \<mapsto> backendUrl port)
                    else e(''TF_HTTP_ADDRESS'' \<mapsto> backendUrl port, ''TF_HTTP_USERNAME'' \<mapsto> ''auth'',
                           ''TF_HTTP_PASSWORD'' \<mapsto> pw))
          in \<lparr>outcome = fst (supervise sys args e1), environ = e1,
               child = snd (supervise sys args e1),
               handler = Some (handlerFunc js backend
                                 (Sprintf_comment (terraformAction args) name) ''auth'' pw),
               configured = s1\<rparr>)"
proof -
  obtain pw where pw: "randSeq 32 (NewSource sys) = Some pw" "length pw = 32"
      "set pw \<subseteq> set letters"
    using fill_Some [of 32 "NewSource sys"] by (auto simp: randSeq_def)
  have z: "CHR 0x00 \<notin> set pw"
    using pw(3) letters_no_NUL by blast
  have a: "CHR 0x00 \<notin> set ''auth''"
    by simp
  note p = publish_ok [OF backendUrl_no_NUL a z]
  have "Wrap js sys backend args s e =
         (let e1 = (if Lockable backend s1
                    then e(''TF_HTTP_ADDRESS'' \<mapsto> backendUrl port, ''TF_HTTP_USERNAME'' \<mapsto> ''auth'',
                           ''TF_HTTP_PASSWORD'' \<mapsto> pw, ''TF_HTTP_LOCK_ADDRESS'' \<mapsto> backendUrl port,
                           ''TF_HTTP_UNLOCK_ADDRESS'' \<mapsto> backendUrl port)
                    else e(''TF_HTTP_ADDRESS'' \<mapsto> backendUrl port, ''TF_HTTP_USERNAME'' \<mapsto> ''auth'',
                           ''TF_HTTP_PASSWORD'' \<mapsto> pw))
          in \<lparr>outcome = fst (supervise sys args e1), environ = e1,
               child = snd (supervise sys args e1),
               handler = Some (handlerFunc js backend
                                 (Sprintf_comment (terraformAction args) name) ''auth'' pw),
               configured = s1\<rparr>)"
    by (simp add: Wrap_def c l n pw(1) p backendHandler_def Let_def split: prod.splits)
  with pw show ?thesis by blast
qed


lemma Wrap_child_Some:
  assumes "child (Wrap js sys backend args s e) = Some c"
  shows "\<exists>s1 port name. Config backend e s = (None, s1) \<and> createListener sys = Inr port
     \<and> Current sys = Some name"
  using assms
  by (auto simp: Wrap_def backendHandler_def Let_def split: prod.splits option.splits sum.splits)


lemma terraformAction_find:
  "terraformAction args =
     (case List.find (\<lambda>arg. arg \<noteq> [] \<and> hd arg \<noteq> CHR ''-'') args of
        None \<Rightarrow> [] | Some arg \<Rightarrow> arg)"
  by (induction args) (auto simp: hd_conv_nth)

lemma casePost_writer:
  assumes "Body request = (data, None)"
    and "Set backend data (Values_Get (Query request) ''ID'') comment (store x) = (err, s2)"
  shows "writer (casePost backend comment request x) =
     WriteHeader StatusOK
       (case err of None \<Rightarrow> writer x | Some t \<Rightarrow> Error (writer x) t StatusInternalServerError)"
  using assms by (simp add: casePost_def callSet_def Let_def split: option.splits)

section \<open>State operations over HTTP\<close>

text \<open>
  C2, as amended. For every POST request, \<open>Backend.Set\<close> is called exactly once, and no
  other backend method is called: with the bytes \<open>io.ReadAll\<close> returned for the body,
  with the first value of the query parameter \<open>ID\<close> (the empty string when there is
  none), and with the comment \<open>updated with terraform '<action>' by '<name>'\<close>, where the
  action is the one the handler was built with and the name is that of the current
  user. When in addition the request carries the session's credentials and its body was
  read without error, the response is 200 with an empty body if \<open>Set\<close> returns no error,
  and 500 with the error text followed by a newline if it returns one.
\<close>

theorem post_calls_Set_once:
  assumes h: "backendHandler js backend action authUser authPassword systemUser = Some h"
    and m: "Method request = MethodPost"
    and x: "x = h request (newExchange s)"
  shows "\<exists>name comment.
      systemUser = Some name
    \<and> comment = ''updated with terraform '' @ [CHR 0x27] @ action @ [CHR 0x27]
          @ '' by '' @ [CHR 0x27] @ name @ [CHR 0x27]
    \<and> calls x = [CallSet (fst (Body request)) (Values_Get (Query request) ''ID'') comment]
    \<and> store x = snd (Set backend (fst (Body request)) (Values_Get (Query request) ''ID'') comment s)
    \<and> (BasicAuth request = (authUser, authPassword, True) \<and> snd (Body request) = None \<longrightarrow>
         (case fst (Set backend (fst (Body request)) (Values_Get (Query request) ''ID'') comment s) of
            None \<Rightarrow> statusCode (writer x) = Some StatusOK \<and> written (writer x) = []
          | Some err \<Rightarrow> statusCode (writer x) = Some StatusInternalServerError
                       \<and> written (writer x) = err @ [CHR 0x0A]))"
proof -
  from backendHandler_Some [OF h] obtain name where
    n: "systemUser = Some name"
    and hf: "h = handlerFunc js backend (Sprintf_comment action name) authUser authPassword"
    by blast
  let ?comment = "Sprintf_comment action name"
  let ?data = "fst (Body request)"
  let ?lockId = "Values_Get (Query request) ''ID''"
  have cs: "calls x = [CallSet ?data ?lockId ?comment]"
    by (simp add: x hf handler_calls m newExchange_def)
  have st: "store x = snd (Set backend ?data ?lockId ?comment s)"
    by (simp add: x hf handler_store m newExchange_def)
  have resp: "case fst (Set backend ?data ?lockId ?comment s) of
            None \<Rightarrow> statusCode (writer x) = Some StatusOK \<and> written (writer x) = []
          | Some err \<Rightarrow> statusCode (writer x) = Some StatusInternalServerError
                       \<and> written (writer x) = err @ [CHR 0x0A]"
    if a: "BasicAuth request = (authUser, authPassword, True)" and b: "snd (Body request) = None"
  proof -
    have run: "x = casePost backend ?comment request (newExchange s)"
      by (simp add: x hf handlerFunc_def m a)
    have b2: "Body request = (?data, None)"
      using b by (simp add: prod_eq_iff)
    obtain err s2 where set: "Set backend ?data ?lockId ?comment s = (err, s2)"
      by (cases "Set backend ?data ?lockId ?comment s") blast
    have set2: "Set backend ?data ?lockId ?comment (store (newExchange s)) = (err, s2)"
      using set by (simp add: newExchange_def)
    have wr: "writer x = WriteHeader StatusOK
       (case err of None \<Rightarrow> newResponseWriter
        | Some t \<Rightarrow> Error newResponseWriter t StatusInternalServerError)"
      unfolding run casePost_writer [OF b2 set2]
      by (simp add: newExchange_def split: option.splits)
    show ?thesis
      by (simp add: wr set response_defs split: option.splits)
  qed
  show ?thesis
    using n cs st resp
    by (auto simp: Sprintf_comment_def)
qed

theorem post_calls_Set_once_witness:
  "calls (handlerFunc exampleJson fileBackend (Sprintf_comment ''apply'' ''alice'') ''auth'' ''secret''
       (exampleRequest ''POST'' (''auth'', ''secret'', True) ''new'' ''lock-123'')
       (newExchange (\<lparr>filePath = ''/state''\<rparr>, disk ''/state'' (Regular ''old'' True True))))
     = [CallSet ''new'' ''lock-123'' (Sprintf_comment ''apply'' ''alice'')]
   \<and> statusCode (writer (handlerFunc exampleJson fileBackend (Sprintf_comment ''apply'' ''alice'')
       ''auth'' ''secret''
       (exampleRequest ''POST'' (''auth'', ''secret'', True) ''new'' ''lock-123'')
       (newExchange (\<lparr>filePath = ''/state''\<rparr>, disk ''/state'' (Regular ''old'' True True)))))
     = Some StatusOK
   \<and> written (writer (handlerFunc exampleJson fileBackend (Sprintf_comment ''apply'' ''alice'')
       ''auth'' ''secret''
       (exampleRequest ''POST'' (''auth'', ''secret'', True) ''new'' ''lock-123'')
       (newExchange (\<lparr>filePath = ''/state''\<rparr>, disk ''/state'' (Regular ''old'' True True)))))
     = []"
proof -
  let ?h = "handlerFunc exampleJson fileBackend (Sprintf_comment ''apply'' ''alice'') ''auth'' ''secret''"
  let ?r = "exampleRequest ''POST'' (''auth'', ''secret'', True) ''new'' ''lock-123''"
  let ?s = "(\<lparr>filePath = ''/state''\<rparr>, disk ''/state'' (Regular ''old'' True True))"
  have 1: "backendHandler exampleJson fileBackend ''apply'' ''auth'' ''secret'' (Some ''alice'') = Some ?h"
    by (simp add: backendHandler_def)
  have 2: "Method ?r = MethodPost"
    by (simp add: exampleRequest_def)
  have 3: "fst (Set fileBackend ''new'' ''lock-123''
       (''updated with terraform '' @ [CHR 0x27] @ ''apply'' @ [CHR 0x27]
          @ '' by '' @ [CHR 0x27] @ ''alice'' @ [CHR 0x27]) ?s) = None"
    by (simp add: fileBackend_def file_Set_def WriteFile_def disk_def)
  from post_calls_Set_once [OF 1 2 refl, of ?s] 3 show ?thesis
    by (auto simp: exampleRequest_def Values_Get_def Sprintf_comment_def)
qed

text \<open>
  C2 as stated fails in two ways. For a POST request without credentials \<open>Set\<close>
  succeeds and the response is 401 with the body \<open>Unauthorized\<close>, not 200 with an empty
  body. And when the wrapper is started as \<open>wrapper terraform plan\<close>, the action in the
  comment that \<open>Set\<close> receives is \<open>terraform\<close>, the command's name, not the first
  argument of the command that is not a flag, \<open>plan\<close>: the loop of \<open>Wrap\<close> starts at the
  command's name.
\<close>

theorem post_claim_counterexample:
  "fst (Set fileBackend ''new'' ''lock-123'' (Sprintf_comment ''terraform'' ''alice'')
       (\<lparr>filePath = ''/state''\<rparr>, disk ''/state'' (Regular ''old'' True True))) = None
   \<and> statusCode (writer (handlerFunc exampleJson fileBackend (Sprintf_comment ''terraform'' ''alice'')
       ''auth'' ''secret'' (exampleRequest ''POST'' ([], [], False) ''new'' ''lock-123'')
       (newExchange (\<lparr>filePath = ''/state''\<rparr>, disk ''/state'' (Regular ''old'' True True)))))
     = Some StatusUnauthorized
   \<and> written (writer (handlerFunc exampleJson fileBackend (Sprintf_comment ''terraform'' ''alice'')
       ''auth'' ''secret'' (exampleRequest ''POST'' ([], [], False) ''new'' ''lock-123'')
       (newExchange (\<lparr>filePath = ''/state''\<rparr>, disk ''/state'' (Regular ''old'' True True)))))
     = ''Unauthorized'' @ [CHR 0x0A]
   \<and> map_option
       (\<lambda>h. calls (h (exampleRequest ''POST'' ([], [], False) ''new'' ''lock-123'')
          (newExchange (\<lparr>filePath = ''/state''\<rparr>, disk ''/state'' (Regular ''old'' True True)))))
       (handler (Wrap exampleJson (exampleSystem RunNil) fileBackend [''terraform'', ''plan'']
          (\<lparr>filePath = []\<rparr>, disk ''/state'' (Regular ''old'' True True))
          [''TF_STATE_WRAPPER_FILE_PATH'' \<mapsto> ''/state'']))
     = Some [CallSet ''new'' ''lock-123''
         (''updated with terraform '' @ [CHR 0x27] @ ''terraform'' @ [CHR 0x27]
            @ '' by '' @ [CHR 0x27] @ ''alice'' @ [CHR 0x27])]"
proof -
  let ?init = "(\<lparr>filePath = []\<rparr>, disk ''/state'' (Regular ''old'' True True))"
  let ?s = "(\<lparr>filePath = ''/state''\<rparr>, disk ''/state'' (Regular ''old'' True True))"
  let ?e = "[''TF_STATE_WRAPPER_FILE_PATH'' \<mapsto> ''/state'']"
  let ?r = "exampleRequest ''POST'' ([], [], False) ''new'' ''lock-123''"
  have c: "Config fileBackend ?e ?init = (None, ?s)"
    by (simp add: fileBackend_def file_Config_def)
  have l: "createListener (exampleSystem RunNil) = Inr 40123"
    and n: "Current (exampleSystem RunNil) = Some ''alice''"
    by (simp_all add: exampleSystem_def)
  from Wrap_configured [OF c l n, of exampleJson "[''terraform'', ''plan'']"] obtain pw where
    hd: "handler (Wrap exampleJson (exampleSystem RunNil) fileBackend [''terraform'', ''plan''] ?init ?e) =
      Some (handlerFunc exampleJson fileBackend
        (Sprintf_comment (terraformAction [''terraform'', ''plan'']) ''alice'') ''auth'' pw)"
    by (auto simp: Let_def)
  have 4: "map_option (\<lambda>h. calls (h ?r (newExchange ?s)))
       (handler (Wrap exampleJson (exampleSystem RunNil) fileBackend [''terraform'', ''plan''] ?init ?e))
     = Some [CallSet ''new'' ''lock-123''
         (''updated with terraform '' @ [CHR 0x27] @ ''terraform'' @ [CHR 0x27]
            @ '' by '' @ [CHR 0x27] @ ''alice'' @ [CHR 0x27])]"
    unfolding hd
    by (simp add: handler_calls exampleRequest_def newExchange_def Values_Get_def
          Sprintf_comment_def)
  have 1: "fst (Set fileBackend ''new'' ''lock-123'' (Sprintf_comment ''terraform'' ''alice'') ?s) = None"
    and 2: "statusCode (writer (handlerFunc exampleJson fileBackend (Sprintf_comment ''terraform'' ''alice'')
       ''auth'' ''secret'' ?r (newExchange ?s))) = Some StatusUnauthorized"
    and 3: "written (writer (handlerFunc exampleJson fileBackend (Sprintf_comment ''terraform'' ''alice'')
       ''auth'' ''secret'' ?r (newExchange ?s))) = ''Unauthorized'' @ [CHR 0x0A]"
    by (simp_all add: handlerFunc_def casePost_def callSet_def exampleRequest_def newExchange_def
        fileBackend_def file_Set_def WriteFile_def disk_def Values_Get_def
        httpError_def writeHeader_def ifErr_def response_defs)
  show ?thesis
    by (rule conjI [OF 1 conjI [OF 2 conjI [OF 3 4]]])
qed

text \<open>
  C3, as amended. For every GET request that carries the session's credentials,
  \<open>Backend.Get\<close> is called once and nothing else is called on the backend. If it returns
  no data and no error, the response is 404 with an empty body; if it returns data and
  no error, the response is 200 and the body is exactly the data; if it returns an error
  and no data, the response is 500 and the body is the error text followed by a newline.
\<close>

theorem get_responses:
  assumes h: "backendHandler js backend action authUser authPassword systemUser = Some h"
    and m: "Method request = MethodGet"
    and a: "BasicAuth request = (authUser, authPassword, True)"
    and g: "Get backend s = ((data, err), s2)"
  shows "calls (h request (newExchange s)) = [CallGet]
     \<and> (data = None \<and> err = None \<longrightarrow>
          statusCode (writer (h request (newExchange s))) = Some StatusNotFound
          \<and> written (writer (h request (newExchange s))) = [])
     \<and> (\<forall>d. data = Some d \<and> err = None \<longrightarrow>
          statusCode (writer (h request (newExchange s))) = Some StatusOK
          \<and> written (writer (h request (newExchange s))) = d)
     \<and> (\<forall>e. data = None \<and> err = Some e \<longrightarrow>
          statusCode (writer (h request (newExchange s))) = Some StatusInternalServerError
          \<and> written (writer (h request (newExchange s))) = e @ [CHR 0x0A])"
proof -
  from backendHandler_Some [OF h] obtain name where
    hf: "h = handlerFunc js backend (Sprintf_comment action name) authUser authPassword"
    by blast
  have run: "h request (newExchange s) = caseGet backend (newExchange s)"
    by (simp add: hf handlerFunc_def m a)
  have c: "calls (caseGet backend (newExchange s)) = [CallGet]"
    by (simp add: caseGet_calls newExchange_def)
  have w: "writer (caseGet backend (newExchange s)) =
      (let w1 = (case err of None \<Rightarrow> newResponseWriter
                 | Some e \<Rightarrow> Error newResponseWriter e StatusInternalServerError)
       in case data of None \<Rightarrow> WriteHeader StatusNotFound w1
          | Some d \<Rightarrow> snd (Write d (WriteHeader StatusOK w1)))"
    by (simp add: caseGet_def callGet_def g Let_def newExchange_def split: option.splits)
  show ?thesis
    unfolding run by (simp add: c w response_defs)
qed



theorem get_responses_witness:
  "calls (handlerFunc exampleJson fileBackend (Sprintf_comment ''plan'' ''alice'') ''auth'' ''secret''
       (exampleRequest ''GET'' (''auth'', ''secret'', True) [] [])
       (newExchange (\<lparr>filePath = ''/state''\<rparr>, disk ''/state'' (Regular ''state-v1'' True True))))
     = [CallGet]
   \<and> statusCode (writer (handlerFunc exampleJson fileBackend (Sprintf_comment ''plan'' ''alice'')
       ''auth'' ''secret'' (exampleRequest ''GET'' (''auth'', ''secret'', True) [] [])
       (newExchange (\<lparr>filePath = ''/state''\<rparr>, disk ''/state'' (Regular ''state-v1'' True True)))))
     = Some StatusOK
   \<and> written (writer (handlerFunc exampleJson fileBackend (Sprintf_comment ''plan'' ''alice'')
       ''auth'' ''secret'' (exampleRequest ''GET'' (''auth'', ''secret'', True) [] [])
       (newExchange (\<lparr>filePath = ''/state''\<rparr>, disk ''/state'' (Regular ''state-v1'' True True)))))
     = ''state-v1''"
proof -
  let ?s = "(\<lparr>filePath = ''/state''\<rparr>, disk ''/state'' (Regular ''state-v1'' True True))"
  have 1: "backendHandler exampleJson fileBackend ''plan'' ''auth'' ''secret'' (Some ''alice'') =
      Some (handlerFunc exampleJson fileBackend (Sprintf_comment ''plan'' ''alice'') ''auth'' ''secret'')"
    by (simp add: backendHandler_def)
  have 2: "Method (exampleRequest ''GET'' (''auth'', ''secret'', True) [] []) = MethodGet"
    by (simp add: exampleRequest_def)
  have 3: "BasicAuth (exampleRequest ''GET'' (''auth'', ''secret'', True) [] []) =
      (''auth'', ''secret'', True)"
    by (simp add: exampleRequest_def)
  have 4: "Get fileBackend ?s = ((Some ''state-v1'', None), ?s)"
    by (simp add: fileBackend_def file_Get_def Stat_def ReadFile_def disk_def)
  from get_responses [OF 1 2 3 4] show ?thesis
    by simp
qed

text \<open>
  C3 as stated fails in two ways. A GET request without credentials for a payload that
  is present is answered with 401 and a body that is not the payload; and when
  \<open>Backend.Get\<close> returns an error the body of the 500 response is the error text with a
  newline after it, not the text itself.
\<close>

theorem get_claim_counterexample:
  "fst (Get fileBackend (\<lparr>filePath = ''/state''\<rparr>, disk ''/state'' (Regular ''v1'' True True)))
     = (Some ''v1'', None)
   \<and> statusCode (writer (handlerFunc exampleJson fileBackend (Sprintf_comment ''plan'' ''alice'')
       ''auth'' ''secret'' (exampleRequest ''GET'' ([], [], False) [] [])
       (newExchange (\<lparr>filePath = ''/state''\<rparr>, disk ''/state'' (Regular ''v1'' True True)))))
     = Some StatusUnauthorized
   \<and> written (writer (handlerFunc exampleJson fileBackend (Sprintf_comment ''plan'' ''alice'')
       ''auth'' ''secret'' (exampleRequest ''GET'' ([], [], False) [] [])
       (newExchange (\<lparr>filePath = ''/state''\<rparr>, disk ''/state'' (Regular ''v1'' True True)))))
     = ''Unauthorized'' @ [CHR 0x0A] @ ''v1''
   \<and> fst (Get fileBackend (\<lparr>filePath = ''/state''\<rparr>, disk ''/state'' (Refused EACCES)))
     = (None, Some ''stat /state: permission denied'')
   \<and> written (writer (handlerFunc exampleJson fileBackend (Sprintf_comment ''plan'' ''alice'')
       ''auth'' ''secret'' (exampleRequest ''GET'' (''auth'', ''secret'', True) [] [])
       (newExchange (\<lparr>filePath = ''/state''\<rparr>, disk ''/state'' (Refused EACCES)))))
     = ''stat /state: permission denied'' @ [CHR 0x0A]"
  by (simp add: handlerFunc_def caseGet_def callGet_def exampleRequest_def newExchange_def
        fileBackend_def file_Get_def Stat_def ReadFile_def disk_def
        httpError_def writeHeader_def writeBody_def ifErr_def returnError_def response_defs)

section \<open>Locking over HTTP\<close>

lemma caseLock_writer:
  assumes "Method request = ''LOCK''"
    and "Body request = (data, None)"
    and "Unmarshal js data = (lockData, None)"
    and "Lock backend lockData (store x) = ((ok, lock, None), s2)"
  shows "writer (caseLock js backend request x) =
     WriteHeader StatusOK
       (if \<not> ok then
          snd (Write (fst (Marshal js lock))
            (WriteHeader StatusConflict
               (case snd (Marshal js lock) of None \<Rightarrow> writer x
                | Some t \<Rightarrow> Error (writer x) t StatusInternalServerError)))
        else writer x)"
  using assms
  by (simp add: caseLock_def callLock_def Let_def split: prod.splits option.splits)

text \<open>
  C4, as amended. For every LOCK request that carries the session's credentials: when
  \<open>Backend.Lockable()\<close> is false the response is 405 and its body is \<open>invalid method\<close>
  followed by a newline, and \<open>Lock\<close> is not called. When the backend is lockable, the
  body is read and decoded without error and \<open>Backend.Lock\<close> returns no error, \<open>Lock\<close>
  is called once with the decoded \<open>LockInfo\<close>; if it grants the lock the response is 200
  with an empty body; if it does not, and \<open>json.Marshal\<close> of the holder's \<open>LockInfo\<close>
  returns no error, the response is 409 and its body is exactly the bytes
  \<open>json.Marshal\<close> returned, so that the body decodes to the holder's fields exactly
  whenever \<open>json.Unmarshal\<close> inverts \<open>json.Marshal\<close> on that \<open>LockInfo\<close>.
\<close>

theorem lock_responses:
  assumes h: "backendHandler js backend action authUser authPassword systemUser = Some h"
    and m: "Method request = ''LOCK''"
    and a: "BasicAuth request = (authUser, authPassword, True)"
    and b: "Body request = (data, berr)"
    and u: "Unmarshal js data = (lockData, uerr)"
    and l: "Lock backend lockData s = ((ok, lock, lerr), s2)"
    and j: "Marshal js lock = (j, merr)"
    and x: "x = h request (newExchange s)"
  shows "(\<not> Lockable backend s \<longrightarrow>
            statusCode (writer x) = Some StatusMethodNotAllowed
          \<and> written (writer x) = ''invalid method'' @ [CHR 0x0A]
          \<and> calls x = [CallLockable])
     \<and> (Lockable backend s \<and> berr = None \<and> uerr = None \<and> lerr = None \<longrightarrow>
            calls x = [CallLockable, CallLock lockData]
          \<and> (ok \<longrightarrow> statusCode (writer x) = Some StatusOK \<and> written (writer x) = [])
          \<and> (\<not> ok \<and> merr = None \<longrightarrow>
                statusCode (writer x) = Some StatusConflict \<and> written (writer x) = j
              \<and> (Unmarshal js (fst (Marshal js lock)) = (lock, None) \<longrightarrow>
                    Unmarshal js (written (writer x)) = (lock, None))))"
proof -
  from backendHandler_Some [OF h] obtain name where
    hf: "h = handlerFunc js backend (Sprintf_comment action name) authUser authPassword"
    by blast
  let ?x2 = "snd (callLockable backend (newExchange s))"
  have w2: "writer ?x2 = newResponseWriter" and s2: "store ?x2 = s"
    by (simp_all add: callLockable_def newExchange_def)
  have cs: "calls x =
      CallLockable # (if Lockable backend s then [CallLock (fst (Unmarshal js (fst (Body request))))] else [])"
    by (simp add: x hf handler_calls m newExchange_def)
  have no: "statusCode (writer x) = Some StatusMethodNotAllowed
          \<and> written (writer x) = ''invalid method'' @ [CHR 0x0A]
          \<and> calls x = [CallLockable]"
    if n: "\<not> Lockable backend s"
  proof -
    have run: "x = httpError ''invalid method'' StatusMethodNotAllowed ?x2"
      using n by (simp add: x hf handlerFunc_def m a callLockable_def newExchange_def)
    have "writer x = Error newResponseWriter ''invalid method'' StatusMethodNotAllowed"
      unfolding run by (simp add: w2)
    then show ?thesis
      using n by (simp add: cs response_defs)
  qed
  have yes: "calls x = [CallLockable, CallLock lockData]
          \<and> (ok \<longrightarrow> statusCode (writer x) = Some StatusOK \<and> written (writer x) = [])
          \<and> (\<not> ok \<and> merr = None \<longrightarrow>
                statusCode (writer x) = Some StatusConflict \<and> written (writer x) = j)"
    if y: "Lockable backend s" and e: "berr = None" "uerr = None" "lerr = None"
  proof -
    have run: "x = caseLock js backend request ?x2"
      using y by (simp add: x hf handlerFunc_def m a callLockable_def newExchange_def)
    have l2: "Lock backend lockData (store ?x2) = ((ok, lock, None), s2)"
      using l e by (simp add: s2)
    have wr: "writer x =
       WriteHeader StatusOK
         (if \<not> ok then
            snd (Write j
              (WriteHeader StatusConflict
                 (case merr of None \<Rightarrow> newResponseWriter
                  | Some t \<Rightarrow> Error newResponseWriter t StatusInternalServerError)))
          else newResponseWriter)"
      unfolding run
      using caseLock_writer [OF m b [unfolded e] u [unfolded e] l2]
      by (simp add: w2 j split: option.splits)
    show ?thesis
      using y by (simp add: cs b u wr response_defs)
  qed
  from no yes show ?thesis
    by (simp add: j)
qed

theorem lock_responses_witness:
  "statusCode (writer (handlerFunc exampleJson slotBackend (Sprintf_comment ''plan'' ''alice'')
       ''auth'' ''secret''
       (exampleRequest ''LOCK'' (''auth'', ''secret'', True) (idOnlyText ''second'') [])
       (newExchange (Some (zeroLockInfo\<lparr>ID := ''first''\<rparr>)))))
     = Some StatusConflict
   \<and> written (writer (handlerFunc exampleJson slotBackend (Sprintf_comment ''plan'' ''alice'')
       ''auth'' ''secret''
       (exampleRequest ''LOCK'' (''auth'', ''secret'', True) (idOnlyText ''second'') [])
       (newExchange (Some (zeroLockInfo\<lparr>ID := ''first''\<rparr>)))))
     = lockInfoText ''first''
   \<and> Unmarshal exampleJson (written (writer (handlerFunc exampleJson slotBackend
       (Sprintf_comment ''plan'' ''alice'') ''auth'' ''secret''
       (exampleRequest ''LOCK'' (''auth'', ''secret'', True) (idOnlyText ''second'') [])
       (newExchange (Some (zeroLockInfo\<lparr>ID := ''first''\<rparr>))))))
     = (zeroLockInfo\<lparr>ID := ''first''\<rparr>, None)"
proof -
  let ?r = "exampleRequest ''LOCK'' (''auth'', ''secret'', True) (idOnlyText ''second'') []"
  let ?held = "zeroLockInfo\<lparr>ID := ''first''\<rparr>"
  have 1: "backendHandler exampleJson slotBackend ''plan'' ''auth'' ''secret'' (Some ''alice'') =
      Some (handlerFunc exampleJson slotBackend (Sprintf_comment ''plan'' ''alice'')
        ''auth'' ''secret'')"
    by (simp add: backendHandler_def)
  have 2: "Method ?r = ''LOCK''"
    and 3: "BasicAuth ?r = (''auth'', ''secret'', True)"
    and 4: "Body ?r = (idOnlyText ''second'', None)"
    by (simp_all add: exampleRequest_def)
  have 5: "Unmarshal exampleJson (idOnlyText ''second'') = (zeroLockInfo\<lparr>ID := ''second''\<rparr>, None)"
    by (simp add: exampleJson_def idOnlyText_def quoted_def)
  have 6: "Lock slotBackend (zeroLockInfo\<lparr>ID := ''second''\<rparr>) (Some ?held) =
      ((False, ?held, None), Some ?held)"
    by (simp add: slotBackend_def)
  have 7: "Marshal exampleJson ?held = (lockInfoText ''first'', None)"
    by (simp add: exampleJson_def)
  have 8: "Lockable slotBackend (Some ?held)"
    by (simp add: slotBackend_def)
  have 9: "Unmarshal exampleJson (lockInfoText ''first'') = (?held, None)"
    by (simp add: exampleJson_def idOnlyText_def lockInfoText_def quoted_def)
  from lock_responses [OF 1 2 3 4 5 6 7 refl] 8 9 show ?thesis
    by simp
qed

text \<open>
  C4 as stated fails in three ways. On a backend that is not lockable, a LOCK request
  without credentials is answered with 401, not 405; and the body of the 405 response
  to a LOCK request with the right credentials is \<open>invalid method\<close> with a newline after
  it. On a lockable backend whose lock is held with an \<open>ID\<close> that is not valid UTF-8 (the
  byte 0xFF), the 409 response carries the text of \<open>json.Marshal\<close>, in which the byte
  is replaced, and the body decodes to an \<open>ID\<close> of the three bytes EF BF BD: the
  holder's fields do not come back exactly.
\<close>

theorem lock_claim_counterexample:
  "Lockable fileBackend (\<lparr>filePath = ''/state''\<rparr>, disk ''/state'' Missing) = False
   \<and> statusCode (writer (handlerFunc exampleJson fileBackend (Sprintf_comment ''plan'' ''alice'')
       ''auth'' ''secret'' (exampleRequest ''LOCK'' ([], [], False) (idOnlyText ''second'') [])
       (newExchange (\<lparr>filePath = ''/state''\<rparr>, disk ''/state'' Missing))))
     = Some StatusUnauthorized
   \<and> written (writer (handlerFunc exampleJson fileBackend (Sprintf_comment ''plan'' ''alice'')
       ''auth'' ''secret''
       (exampleRequest ''LOCK'' (''auth'', ''secret'', True) (idOnlyText ''second'') [])
       (newExchange (\<lparr>filePath = ''/state''\<rparr>, disk ''/state'' Missing))))
     = ''invalid method'' @ [CHR 0x0A]
   \<and> statusCode (writer (handlerFunc exampleJson slotBackend (Sprintf_comment ''plan'' ''alice'')
       ''auth'' ''secret''
       (exampleRequest ''LOCK'' (''auth'', ''secret'', True) (idOnlyText ''second'') [])
       (newExchange (Some (zeroLockInfo\<lparr>ID := [CHR 0xFF]\<rparr>)))))
     = Some StatusConflict
   \<and> ID (fst (Unmarshal exampleJson (written (writer (handlerFunc exampleJson slotBackend
       (Sprintf_comment ''plan'' ''alice'') ''auth'' ''secret''
       (exampleRequest ''LOCK'' (''auth'', ''secret'', True) (idOnlyText ''second'') [])
       (newExchange (Some (zeroLockInfo\<lparr>ID := [CHR 0xFF]\<rparr>))))))))
     = [CHR 0xEF, CHR 0xBF, CHR 0xBD]"
proof -
  have 1: "Lockable fileBackend (\<lparr>filePath = ''/state''\<rparr>, disk ''/state'' Missing) = False"
    and 2: "statusCode (writer (handlerFunc exampleJson fileBackend
       (Sprintf_comment ''plan'' ''alice'')
       ''auth'' ''secret'' (exampleRequest ''LOCK'' ([], [], False) (idOnlyText ''second'') [])
       (newExchange (\<lparr>filePath = ''/state''\<rparr>, disk ''/state'' Missing))))
     = Some StatusUnauthorized"
    and 3: "written (writer (handlerFunc exampleJson fileBackend
       (Sprintf_comment ''plan'' ''alice'') ''auth'' ''secret''
       (exampleRequest ''LOCK'' (''auth'', ''secret'', True) (idOnlyText ''second'') [])
       (newExchange (\<lparr>filePath = ''/state''\<rparr>, disk ''/state'' Missing))))
     = ''invalid method'' @ [CHR 0x0A]"
    by (simp_all add: handlerFunc_def callLockable_def exampleRequest_def newExchange_def
        fileBackend_def file_Lockable_def httpError_def response_defs)
  let ?x = "handlerFunc exampleJson slotBackend (Sprintf_comment ''plan'' ''alice'')
       ''auth'' ''secret''
       (exampleRequest ''LOCK'' (''auth'', ''secret'', True) (idOnlyText ''second'') [])
       (newExchange (Some (zeroLockInfo\<lparr>ID := [CHR 0xFF]\<rparr>)))"
  have u: "Unmarshal exampleJson (idOnlyText ''second'') = (zeroLockInfo\<lparr>ID := ''second''\<rparr>, None)"
    by (simp add: exampleJson_def idOnlyText_def quoted_def)
  have m: "Marshal exampleJson (zeroLockInfo\<lparr>ID := [CHR 0xFF]\<rparr>) =
      (lockInfoText ([CHR 0x5C] @ ''ufffd''), None)"
    by (simp add: exampleJson_def zeroLockInfo_def)
  have w: "writer ?x = \<lparr>statusCode = Some StatusConflict,
      written = lockInfoText ([CHR 0x5C] @ ''ufffd'')\<rparr>"
    by (simp add: handlerFunc_def callLockable_def caseLock_def callLock_def exampleRequest_def
        newExchange_def slotBackend_def u m httpError_def writeHeader_def writeBody_def
        ifErr_def returnError_def response_defs)
  have d: "Unmarshal exampleJson (lockInfoText ([CHR 0x5C] @ ''ufffd'')) =
      (zeroLockInfo\<lparr>ID := [CHR 0xEF, CHR 0xBF, CHR 0xBD]\<rparr>, None)"
    by (simp add: exampleJson_def idOnlyText_def lockInfoText_def quoted_def)
  have 4: "statusCode (writer ?x) = Some StatusConflict"
    by (simp add: w)
  have 5: "ID (fst (Unmarshal exampleJson (written (writer ?x)))) = [CHR 0xEF, CHR 0xBF, CHR 0xBD]"
    using d by (simp add: w)
  show ?thesis
    by (rule conjI [OF 1 conjI [OF 2 conjI [OF 3 conjI [OF 4 5]]]])
qed

lemma caseLock_undecodable:
  assumes b: "Body request = (data, None)"
    and u: "Unmarshal js data = (lockData, Some e)"
    and x: "writer x = newResponseWriter"
  shows "answered StatusInternalServerError (e @ [CHR 0x0A]) (writer (caseLock js backend request x))"
proof -
  have base: "answered StatusInternalServerError (e @ [CHR 0x0A])
      (Error newResponseWriter e StatusInternalServerError)"
    by (simp add: answered_def response_defs)
  show ?thesis
    using base
    by (auto simp: caseLock_def b u x callLock_def callUnLock_def Let_def
          split: prod.splits option.splits)
qed

lemma caseLock_undecodable_status:
  assumes b: "Body request = (data, berr)"
    and u: "Unmarshal js data = (lockData, Some e)"
    and x: "writer x = newResponseWriter"
  shows "statusCode (writer (caseLock js backend request x)) = Some StatusInternalServerError"
proof -
  have base: "answered StatusInternalServerError []
      (Error (case berr of None \<Rightarrow> newResponseWriter
              | Some e2 \<Rightarrow> Error newResponseWriter e2 StatusInternalServerError) e StatusInternalServerError)"
    by (simp add: answered_def response_defs split: option.splits)
  have "answered StatusInternalServerError [] (writer (caseLock js backend request x))"
    using base
    by (auto simp: caseLock_def b u x callLock_def callUnLock_def Let_def
          split: prod.splits option.splits)
  then show ?thesis by (simp add: answered_def)
qed


text \<open>
  C5, as amended. For every LOCK or UNLOCK request on a lockable backend that carries
  the session's credentials and whose body does not decode into a \<open>LockInfo\<close>, the
  response has status 500; when the body was read without error, the response body
  starts with the text of the decode error followed by a newline.
\<close>

theorem undecodable_lock_body:
  assumes h: "backendHandler js backend action authUser authPassword systemUser = Some h"
    and m: "Method request = ''LOCK'' \<or> Method request = ''UNLOCK''"
    and a: "BasicAuth request = (authUser, authPassword, True)"
    and l: "Lockable backend s"
    and b: "Body request = (data, berr)"
    and u: "Unmarshal js data = (lockData, Some e)"
  shows "statusCode (writer (h request (newExchange s))) = Some StatusInternalServerError
     \<and> (berr = None \<longrightarrow> prefix (e @ [CHR 0x0A]) (written (writer (h request (newExchange s)))))"
proof -
  from backendHandler_Some [OF h] obtain name where
    hf: "h = handlerFunc js backend (Sprintf_comment action name) authUser authPassword"
    by blast
  let ?x2 = "snd (callLockable backend (newExchange s))"
  have run: "h request (newExchange s) = caseLock js backend request ?x2"
    using m l by (auto simp: hf handlerFunc_def a callLockable_def newExchange_def)
  have x: "writer ?x2 = newResponseWriter"
    by (simp add: callLockable_def newExchange_def)
  show ?thesis
    unfolding run
    using caseLock_undecodable_status [OF b u x] caseLock_undecodable [OF _ u x, of request]
    by (auto simp: answered_def b)
qed



theorem undecodable_lock_body_witness:
  "statusCode (writer (handlerFunc exampleJson slotBackend (Sprintf_comment ''plan'' ''alice'')
       ''auth'' ''secret'' (exampleRequest ''UNLOCK'' (''auth'', ''secret'', True) [] [])
       (newExchange None)))
     = Some StatusInternalServerError
   \<and> prefix (''unexpected end of JSON input'' @ [CHR 0x0A])
       (written (writer (handlerFunc exampleJson slotBackend (Sprintf_comment ''plan'' ''alice'')
         ''auth'' ''secret'' (exampleRequest ''UNLOCK'' (''auth'', ''secret'', True) [] [])
         (newExchange None))))"
proof -
  let ?r = "exampleRequest ''UNLOCK'' (''auth'', ''secret'', True) [] []"
  have 1: "backendHandler exampleJson slotBackend ''plan'' ''auth'' ''secret'' (Some ''alice'') =
      Some (handlerFunc exampleJson slotBackend (Sprintf_comment ''plan'' ''alice'') ''auth'' ''secret'')"
    by (simp add: backendHandler_def)
  have 2: "Method ?r = ''LOCK'' \<or> Method ?r = ''UNLOCK''"
    and 3: "BasicAuth ?r = (''auth'', ''secret'', True)"
    and 5: "Body ?r = ([], None)"
    by (simp_all add: exampleRequest_def)
  have 4: "Lockable slotBackend None"
    by (simp add: slotBackend_def)
  have 6: "Unmarshal exampleJson [] = (zeroLockInfo, Some ''unexpected end of JSON input'')"
    by (simp add: exampleJson_def)
  from undecodable_lock_body [OF 1 2 3 4 5 6] show ?thesis
    by simp
qed

text \<open>
  C5 as stated fails in two ways on a lockable backend: without credentials the request
  is answered with 401, not 500; and with the right credentials the body of the 500
  response is the decode error's text with a newline after it.
\<close>

theorem undecodable_claim_counterexample:
  "snd (Unmarshal exampleJson []) = Some ''unexpected end of JSON input''
   \<and> statusCode (writer (handlerFunc exampleJson slotBackend (Sprintf_comment ''plan'' ''alice'')
       ''auth'' ''secret'' (exampleRequest ''UNLOCK'' ([], [], False) [] [])
       (newExchange None)))
     = Some StatusUnauthorized
   \<and> written (writer (handlerFunc exampleJson slotBackend (Sprintf_comment ''plan'' ''alice'')
       ''auth'' ''secret'' (exampleRequest ''UNLOCK'' (''auth'', ''secret'', True) [] [])
       (newExchange None)))
     = ''unexpected end of JSON input'' @ [CHR 0x0A]"
  by (simp add: handlerFunc_def callLockable_def caseLock_def callUnLock_def exampleRequest_def
        newExchange_def slotBackend_def exampleJson_def httpError_def writeHeader_def ifErr_def
        returnError_def response_defs)

section \<open>The child process\<close>

text \<open>
  C6. Once \<open>Config\<close> has succeeded, the listener is bound and the current user is known:
  if no child command was supplied, \<open>Wrap\<close> ends in \<open>log.Fatal\<close> with the usage message;
  otherwise the child is run in the environment \<open>Wrap\<close> has prepared, and if it exits
  with a status reported by an \<open>*exec.ExitError\<close>, \<open>Wrap\<close> calls \<open>os.Exit\<close> with that
  very code; if it exits with status zero, \<open>Wrap\<close> calls \<open>os.Exit(0)\<close>; and if running it
  fails with any other error, \<open>Wrap\<close> ends in \<open>log.Fatal\<close> with that error.
\<close>

theorem child_exit_status:
  assumes c: "Config backend e s = (None, s1)"
    and l: "createListener sys = Inr port"
    and n: "Current sys = Some name"
    and w: "w = Wrap js sys backend args s e"
  shows "(args = [] \<longrightarrow> outcome w = Fatal ''usage: ./wrapper terraform plan|apply|validate...'')
     \<and> (args \<noteq> [] \<longrightarrow>
          child w = Some (hd args, tl args, environ w)
        \<and> (case Run sys (hd args) (tl args) (environ w) of
              ExitError code \<Rightarrow> outcome w = Exit code
            | RunNil \<Rightarrow> outcome w = Exit 0
            | RunError err \<Rightarrow> outcome w = Fatal err))"
proof -
  from Wrap_configured [OF c l n, of js args] obtain e1 where
    o: "outcome w = fst (supervise sys args e1)" and v: "environ w = e1"
    and ch: "child w = snd (supervise sys args e1)"
    unfolding w by (auto simp: Let_def)
  show ?thesis
    by (simp add: o v ch supervise_def split: RunResult.splits)
qed

theorem child_exit_status_witness:
  "outcome (Wrap exampleJson (exampleSystem (ExitError 7)) fileBackend [''terraform'', ''plan'']
       (\<lparr>filePath = []\<rparr>, disk ''/state'' Missing)
       [''TF_STATE_WRAPPER_FILE_PATH'' \<mapsto> ''/state''])
     = Exit 7
   \<and> outcome (Wrap exampleJson (exampleSystem (ExitError 7)) fileBackend []
       (\<lparr>filePath = []\<rparr>, disk ''/state'' Missing)
       [''TF_STATE_WRAPPER_FILE_PATH'' \<mapsto> ''/state''])
     = Fatal ''usage: ./wrapper terraform plan|apply|validate...''"
proof -
  let ?init = "(\<lparr>filePath = []\<rparr>, disk ''/state'' Missing)"
  let ?e = "[''TF_STATE_WRAPPER_FILE_PATH'' \<mapsto> ''/state'']"
  have c: "Config fileBackend ?e ?init =
      (None, (\<lparr>filePath = ''/state''\<rparr>, disk ''/state'' Missing))"
    by (simp add: fileBackend_def file_Config_def)
  have l: "createListener (exampleSystem (ExitError 7)) = Inr 40123"
    and n: "Current (exampleSystem (ExitError 7)) = Some ''alice''"
    by (simp_all add: exampleSystem_def)
  from child_exit_status [where js = exampleJson and args = "[''terraform'', ''plan'']", OF c l n refl]
    child_exit_status [where js = exampleJson and args = "[]", OF c l n refl]
  show ?thesis
    by (simp add: exampleSystem_def)
qed

section \<open>The environment of the child\<close>

text \<open>
  C7, as amended. The connection variables are written with \<open>os.Setenv\<close> into the
  environment of the wrapper process itself, and the child is run in that environment.
  Whenever a child is run, \<open>TF_HTTP_ADDRESS\<close>, \<open>TF_HTTP_USERNAME\<close> and
  \<open>TF_HTTP_PASSWORD\<close> are set in it to the adapter's URL, the fixed user name and the
  generated password. If \<open>Backend.Lockable()\<close> is true, \<open>TF_HTTP_LOCK_ADDRESS\<close> and
  \<open>TF_HTTP_UNLOCK_ADDRESS\<close> are set to the same URL; if it is false, the wrapper leaves
  them as they were in the environment it was started with. No other variable is
  changed.
\<close>

theorem child_environment:
  assumes ch: "child (Wrap js sys backend args s e) = Some (cmd, argv, ce)"
    and w: "w = Wrap js sys backend args s e"
  shows "\<exists>port pw.
       createListener sys = Inr port \<and> randSeq 32 (NewSource sys) = Some pw
     \<and> ce = environ w
     \<and> ce ''TF_HTTP_ADDRESS'' = Some (backendUrl port)
     \<and> ce ''TF_HTTP_USERNAME'' = Some ''auth''
     \<and> ce ''TF_HTTP_PASSWORD'' = Some pw
     \<and> (Lockable backend (configured w) \<longrightarrow>
            ce ''TF_HTTP_LOCK_ADDRESS'' = Some (backendUrl port)
          \<and> ce ''TF_HTTP_UNLOCK_ADDRESS'' = Some (backendUrl port))
     \<and> (\<not> Lockable backend (configured w) \<longrightarrow>
            ce ''TF_HTTP_LOCK_ADDRESS'' = e ''TF_HTTP_LOCK_ADDRESS''
          \<and> ce ''TF_HTTP_UNLOCK_ADDRESS'' = e ''TF_HTTP_UNLOCK_ADDRESS'')
     \<and> (\<forall>k. k \<notin> {''TF_HTTP_ADDRESS'', ''TF_HTTP_USERNAME'', ''TF_HTTP_PASSWORD'',
                   ''TF_HTTP_LOCK_ADDRESS'', ''TF_HTTP_UNLOCK_ADDRESS''} \<longrightarrow> ce k = e k)"
proof -
  from Wrap_child_Some [OF ch] obtain s1 port name where
    c: "Config backend e s = (None, s1)" and l: "createListener sys = Inr port"
    and n: "Current sys = Some name"
    by blast
  from Wrap_configured [OF c l n, of js args] obtain pw where
    pw: "randSeq 32 (NewSource sys) = Some pw"
    and eq: "w =
         (let e1 = (if Lockable backend s1
                    then e(''TF_HTTP_ADDRESS'' \<mapsto> backendUrl port, ''TF_HTTP_USERNAME'' \<mapsto> ''auth'',
                           ''TF_HTTP_PASSWORD'' \<mapsto> pw, ''TF_HTTP_LOCK_ADDRESS'' \<mapsto> backendUrl port,
                           ''TF_HTTP_UNLOCK_ADDRESS'' \<mapsto> backendUrl port)
                    else e(''TF_HTTP_ADDRESS'' \<mapsto> backendUrl port, ''TF_HTTP_USERNAME'' \<mapsto> ''auth'',
                           ''TF_HTTP_PASSWORD'' \<mapsto> pw))
          in \<lparr>outcome = fst (supervise sys args e1), environ = e1,
               child = snd (supervise sys args e1),
               handler = Some (handlerFunc js backend
                                 (Sprintf_comment (terraformAction args) name) ''auth'' pw),
               configured = s1\<rparr>)"
    unfolding w by blast
  have cfg: "configured w = s1"
    by (simp add: eq Let_def)
  have env: "environ w = (if Lockable backend s1
                    then e(''TF_HTTP_ADDRESS'' \<mapsto> backendUrl port, ''TF_HTTP_USERNAME'' \<mapsto> ''auth'',
                           ''TF_HTTP_PASSWORD'' \<mapsto> pw, ''TF_HTTP_LOCK_ADDRESS'' \<mapsto> backendUrl port,
                           ''TF_HTTP_UNLOCK_ADDRESS'' \<mapsto> backendUrl port)
                    else e(''TF_HTTP_ADDRESS'' \<mapsto> backendUrl port, ''TF_HTTP_USERNAME'' \<mapsto> ''auth'',
                           ''TF_HTTP_PASSWORD'' \<mapsto> pw))"
    by (simp add: eq Let_def)
  have "child w = snd (supervise sys args (environ w))"
    by (simp add: eq Let_def)
  with ch have ce: "ce = environ w"
    unfolding w [symmetric]
    by (auto simp: supervise_def split: if_splits RunResult.splits)
  have vars: "ce ''TF_HTTP_ADDRESS'' = Some (backendUrl port)
     \<and> ce ''TF_HTTP_USERNAME'' = Some ''auth''
     \<and> ce ''TF_HTTP_PASSWORD'' = Some pw"
    by (simp add: ce env)
  have lock: "Lockable backend s1 \<Longrightarrow>
            ce ''TF_HTTP_LOCK_ADDRESS'' = Some (backendUrl port)
          \<and> ce ''TF_HTTP_UNLOCK_ADDRESS'' = Some (backendUrl port)"
    by (simp add: ce env)
  have nolock: "\<not> Lockable backend s1 \<Longrightarrow>
            ce ''TF_HTTP_LOCK_ADDRESS'' = e ''TF_HTTP_LOCK_ADDRESS''
          \<and> ce ''TF_HTTP_UNLOCK_ADDRESS'' = e ''TF_HTTP_UNLOCK_ADDRESS''"
    by (simp add: ce env)
  have rest: "\<forall>k. k \<notin> {''TF_HTTP_ADDRESS'', ''TF_HTTP_USERNAME'', ''TF_HTTP_PASSWORD'',
                   ''TF_HTTP_LOCK_ADDRESS'', ''TF_HTTP_UNLOCK_ADDRESS''} \<longrightarrow> ce k = e k"
    by (simp add: ce env)
  from l pw ce vars lock nolock rest show ?thesis
    unfolding cfg by blast
qed

lemma backendUrl_40123: "backendUrl 40123 = ''http://127.0.0.1:40123/backend''"
  by (simp add: backendUrl_def URL_String_def itoa.simps)

lemma Wrap_example:
  assumes p: "e ''TF_STATE_WRAPPER_FILE_PATH'' = Some path"
    and w: "w = Wrap exampleJson (exampleSystem r) fileBackend args (\<lparr>filePath = []\<rparr>, fs) e"
  shows "\<exists>pw. randSeq 32 (\<lambda>i. 7 * i) = Some pw
     \<and> environ w = e(''TF_HTTP_ADDRESS'' \<mapsto> ''http://127.0.0.1:40123/backend'',
                      ''TF_HTTP_USERNAME'' \<mapsto> ''auth'', ''TF_HTTP_PASSWORD'' \<mapsto> pw)
     \<and> child w = snd (supervise (exampleSystem r) args (environ w))
     \<and> configured w = (\<lparr>filePath = path\<rparr>, fs)"
proof -
  have c: "Config fileBackend e (\<lparr>filePath = []\<rparr>, fs) = (None, (\<lparr>filePath = path\<rparr>, fs))"
    by (simp add: fileBackend_def file_Config_def p)
  have l: "createListener (exampleSystem r) = Inr 40123"
    and n: "Current (exampleSystem r) = Some ''alice''"
    by (simp_all add: exampleSystem_def)
  have nl: "\<not> Lockable fileBackend (\<lparr>filePath = path\<rparr>, fs)"
    by (simp add: fileBackend_def file_Lockable_def)
  have ns: "NewSource (exampleSystem r) = (\<lambda>i. 7 * i)"
    by (simp add: exampleSystem_def)
  from Wrap_configured [OF c l n, of exampleJson args] show ?thesis
    unfolding w by (auto simp: Let_def nl ns backendUrl_40123)
qed

theorem child_environment_witness:
  "child (Wrap exampleJson (exampleSystem RunNil) fileBackend [''terraform'', ''plan'']
       (\<lparr>filePath = []\<rparr>, disk ''/state'' Missing)
       [''TF_STATE_WRAPPER_FILE_PATH'' \<mapsto> ''/state''])
     = Some (''terraform'', [''plan''],
         environ (Wrap exampleJson (exampleSystem RunNil) fileBackend [''terraform'', ''plan'']
           (\<lparr>filePath = []\<rparr>, disk ''/state'' Missing)
           [''TF_STATE_WRAPPER_FILE_PATH'' \<mapsto> ''/state'']))
   \<and> environ (Wrap exampleJson (exampleSystem RunNil) fileBackend [''terraform'', ''plan'']
       (\<lparr>filePath = []\<rparr>, disk ''/state'' Missing)
       [''TF_STATE_WRAPPER_FILE_PATH'' \<mapsto> ''/state'']) ''TF_HTTP_ADDRESS''
     = Some ''http://127.0.0.1:40123/backend''
   \<and> environ (Wrap exampleJson (exampleSystem RunNil) fileBackend [''terraform'', ''plan'']
       (\<lparr>filePath = []\<rparr>, disk ''/state'' Missing)
       [''TF_STATE_WRAPPER_FILE_PATH'' \<mapsto> ''/state'']) ''TF_HTTP_USERNAME''
     = Some ''auth''
   \<and> environ (Wrap exampleJson (exampleSystem RunNil) fileBackend [''terraform'', ''plan'']
       (\<lparr>filePath = []\<rparr>, disk ''/state'' Missing)
       [''TF_STATE_WRAPPER_FILE_PATH'' \<mapsto> ''/state'']) ''TF_HTTP_LOCK_ADDRESS''
     = None"
proof -
  let ?e = "[''TF_STATE_WRAPPER_FILE_PATH'' \<mapsto> ''/state'']"
  let ?w = "Wrap exampleJson (exampleSystem RunNil) fileBackend [''terraform'', ''plan'']
       (\<lparr>filePath = []\<rparr>, disk ''/state'' Missing) ?e"
  have p: "?e ''TF_STATE_WRAPPER_FILE_PATH'' = Some ''/state''"
    by simp
  from Wrap_example [where e = ?e and path = "''/state''" and r = RunNil
      and args = "[''terraform'', ''plan'']" and fs = "disk ''/state'' Missing", OF p refl]
  have 1: "child ?w = Some (''terraform'', [''plan''], environ ?w)"
    and 2: "configured ?w = (\<lparr>filePath = ''/state''\<rparr>, disk ''/state'' Missing)"
    by (auto simp: supervise_def exampleSystem_def)
  have 3: "\<not> Lockable fileBackend (configured ?w)"
    by (simp add: 2 fileBackend_def file_Lockable_def)
  have 4: "createListener (exampleSystem RunNil) = Inr 40123"
    by (simp add: exampleSystem_def)
  from child_environment [OF 1 refl] 3 4 show ?thesis
    by (auto simp: 1 backendUrl_40123)
qed

text \<open>
  C7 as stated fails in two ways. After \<open>Wrap\<close> the wrapper's own environment holds
  \<open>TF_HTTP_ADDRESS\<close>, which it did not hold before: the variable is published into the
  process's global state. And with a backend that is not lockable, a
  \<open>TF_HTTP_LOCK_ADDRESS\<close> that the wrapper was started with is still set for the child.
\<close>

theorem child_environment_counterexample:
  "[''TF_STATE_WRAPPER_FILE_PATH'' \<mapsto> ''/state''] ''TF_HTTP_ADDRESS'' = None
   \<and> environ (Wrap exampleJson (exampleSystem RunNil) fileBackend [''terraform'', ''plan'']
       (\<lparr>filePath = []\<rparr>, disk ''/state'' Missing)
       [''TF_STATE_WRAPPER_FILE_PATH'' \<mapsto> ''/state'']) ''TF_HTTP_ADDRESS''
     = Some ''http://127.0.0.1:40123/backend''
   \<and> Lockable fileBackend (configured (Wrap exampleJson (exampleSystem RunNil) fileBackend
       [''terraform'', ''plan''] (\<lparr>filePath = []\<rparr>, disk ''/state'' Missing)
       [''TF_STATE_WRAPPER_FILE_PATH'' \<mapsto> ''/state'', ''TF_HTTP_LOCK_ADDRESS'' \<mapsto> ''http://other/'']))
     = False
   \<and> map_option (\<lambda>c. snd (snd c) ''TF_HTTP_LOCK_ADDRESS'')
       (child (Wrap exampleJson (exampleSystem RunNil) fileBackend
         [''terraform'', ''plan''] (\<lparr>filePath = []\<rparr>, disk ''/state'' Missing)
         [''TF_STATE_WRAPPER_FILE_PATH'' \<mapsto> ''/state'', ''TF_HTTP_LOCK_ADDRESS'' \<mapsto> ''http://other/'']))
     = Some (Some ''http://other/'')"
proof -
  let ?e = "[''TF_STATE_WRAPPER_FILE_PATH'' \<mapsto> ''/state'']"
  let ?e2 = "[''TF_STATE_WRAPPER_FILE_PATH'' \<mapsto> ''/state'', ''TF_HTTP_LOCK_ADDRESS'' \<mapsto> ''http://other/'']"
  have p: "?e ''TF_STATE_WRAPPER_FILE_PATH'' = Some ''/state''"
    and p2: "?e2 ''TF_STATE_WRAPPER_FILE_PATH'' = Some ''/state''"
    by simp_all
  let ?w = "Wrap exampleJson (exampleSystem RunNil) fileBackend [''terraform'', ''plan'']
       (\<lparr>filePath = []\<rparr>, disk ''/state'' Missing) ?e"
  let ?w2 = "Wrap exampleJson (exampleSystem RunNil) fileBackend [''terraform'', ''plan'']
       (\<lparr>filePath = []\<rparr>, disk ''/state'' Missing) ?e2"
  from Wrap_example [where e = ?e and path = "''/state''" and r = RunNil
      and args = "[''terraform'', ''plan'']" and fs = "disk ''/state'' Missing", OF p refl]
  obtain pw where a: "environ ?w = ?e(''TF_HTTP_ADDRESS'' \<mapsto> ''http://127.0.0.1:40123/backend'',
                      ''TF_HTTP_USERNAME'' \<mapsto> ''auth'', ''TF_HTTP_PASSWORD'' \<mapsto> pw)"
    by blast
  from Wrap_example [where e = ?e2 and path = "''/state''" and r = RunNil
      and args = "[''terraform'', ''plan'']" and fs = "disk ''/state'' Missing", OF p2 refl]
  obtain pw2 where b: "environ ?w2 = ?e2(''TF_HTTP_ADDRESS'' \<mapsto> ''http://127.0.0.1:40123/backend'',
                      ''TF_HTTP_USERNAME'' \<mapsto> ''auth'', ''TF_HTTP_PASSWORD'' \<mapsto> pw2)"
    and c: "child ?w2 = snd (supervise (exampleSystem RunNil) [''terraform'', ''plan''] (environ ?w2))"
    and d: "configured ?w2 = (\<lparr>filePath = ''/state''\<rparr>, disk ''/state'' Missing)"
    by blast
  have 1: "environ ?w ''TF_HTTP_ADDRESS'' = Some ''http://127.0.0.1:40123/backend''"
    by (simp add: a)
  have 2: "Lockable fileBackend (configured ?w2) = False"
    by (simp add: d fileBackend_def file_Lockable_def)
  have 3: "map_option (\<lambda>c. snd (snd c) ''TF_HTTP_LOCK_ADDRESS'') (child ?w2) =
      Some (Some ''http://other/'')"
  proof -
    have "snd (supervise (exampleSystem RunNil) [''terraform'', ''plan''] (environ ?w2)) =
        Some (''terraform'', [''plan''], environ ?w2)"
      by (simp add: supervise_def exampleSystem_def)
    with c have "child ?w2 = Some (''terraform'', [''plan''], environ ?w2)"
      by simp
    then show ?thesis
      by (simp add: b)
  qed
  from 1 2 3 show ?thesis
    by simp
qed

section \<open>The file backend's Set and Get\<close>

lemma file_Set_then_Get_if_both_succeed:
  assumes s: "Set fileBackend P lockID comment st = (None, st2)"
    and g: "snd (fst (Get fileBackend st2)) = None"
  shows "Get fileBackend st2 = ((Some P, None), st2)"
proof -
  obtain f fs where st: "st = (f, fs)"
    by (cases st)
  show ?thesis
  proof (cases "nodes fs (filePath f)")
    case Missing
    with s g st show ?thesis
      by (auto simp: fileBackend_def file_Set_def file_Get_def WriteFile_def Stat_def
            ReadFile_def split: if_splits option.splits)
  next
    case (Regular d r w)
    with s g st show ?thesis
      by (auto simp: fileBackend_def file_Set_def file_Get_def WriteFile_def Stat_def
            ReadFile_def split: if_splits)
  next
    case Directory
    with s st show ?thesis
      by (simp add: fileBackend_def file_Set_def WriteFile_def)
  next
    case (Refused e)
    with s st show ?thesis
      by (simp add: fileBackend_def file_Set_def WriteFile_def)
  qed
qed

text \<open>
  C8, as amended. For every payload, lock ID and comment: when the path of the state
  file holds a regular file that the process may read and write, or holds nothing while
  a file may be created there and the umask leaves the owner's read permission, the file
  backend's \<open>Set\<close> returns no error and the \<open>Get\<close> that follows returns exactly the
  payload, with no error, leaving the backend and the file system as \<open>Set\<close> left them.
\<close>

theorem file_Set_Get_roundtrip:
  assumes "(nodes fs (filePath f) = Missing \<and> entry fs (filePath f) = None
              \<and> umask fs div 256 mod 2 = 0)
         \<or> (\<exists>d. nodes fs (filePath f) = Regular d True True)"
  shows "\<exists>st2. Set fileBackend P lockID comment (f, fs) = (None, st2)
           \<and> Get fileBackend st2 = ((Some P, None), st2)"
  using assms
  by (auto simp: fileBackend_def file_Set_def file_Get_def WriteFile_def Stat_def ReadFile_def
        created_with_def)

theorem file_Set_Get_roundtrip_witness:
  "fst (Set fileBackend ''state-v1'' ''lock-123'' ''by alice''
       (\<lparr>filePath = ''/state''\<rparr>, disk ''/other'' Directory)) = None
   \<and> fst (Get fileBackend (snd (Set fileBackend ''state-v1'' ''lock-123'' ''by alice''
       (\<lparr>filePath = ''/state''\<rparr>, disk ''/other'' Directory))))
     = (Some ''state-v1'', None)"
proof -
  have 1: "(nodes (disk ''/other'' Directory) (filePath \<lparr>filePath = ''/state''\<rparr>) = Missing
              \<and> entry (disk ''/other'' Directory) (filePath \<lparr>filePath = ''/state''\<rparr>) = None
              \<and> umask (disk ''/other'' Directory) div 256 mod 2 = 0)
         \<or> (\<exists>d. nodes (disk ''/other'' Directory) (filePath \<lparr>filePath = ''/state''\<rparr>)
                = Regular d True True)"
    by (simp add: disk_def)
  from file_Set_Get_roundtrip [OF 1, of "''state-v1''" "''lock-123''" "''by alice''"]
  show ?thesis
    by auto
qed

text \<open>
  C8 as stated fails where the storage takes the write and refuses the read. On a state
  file that the process may write and may not read (mode 0200), \<open>Set\<close> returns no error
  and the \<open>Get\<close> that follows returns a permission error and no payload; the same happens
  when \<open>Set\<close> creates the file under a umask that clears the owner's read permission
  (0400, which is 256).
\<close>

theorem file_Set_Get_counterexample:
  "fst (Set fileBackend ''new'' ''lock-123'' ''by alice''
       (\<lparr>filePath = ''/state''\<rparr>, disk ''/state'' (Regular ''old'' False True))) = None
   \<and> fst (Get fileBackend (snd (Set fileBackend ''new'' ''lock-123'' ''by alice''
       (\<lparr>filePath = ''/state''\<rparr>, disk ''/state'' (Regular ''old'' False True)))))
     = (None, Some ''open /state: permission denied'')
   \<and> fst (Set fileBackend ''new'' ''lock-123'' ''by alice''
       (\<lparr>filePath = ''/state''\<rparr>, (disk ''/other'' Directory)\<lparr>umask := 256\<rparr>)) = None
   \<and> fst (Get fileBackend (snd (Set fileBackend ''new'' ''lock-123'' ''by alice''
       (\<lparr>filePath = ''/state''\<rparr>, (disk ''/other'' Directory)\<lparr>umask := 256\<rparr>))))
     = (None, Some ''open /state: permission denied'')"
  by (simp add: fileBackend_def file_Set_def file_Get_def WriteFile_def Stat_def ReadFile_def
        disk_def created_with_def)

text \<open>
  C10. The file backend's \<open>Set\<close> ignores the lock ID and the comment: two calls with the
  same data on the same state return the same error and leave the same state, whatever
  the lock IDs and comments.
\<close>

theorem file_Set_ignores_lockID_and_comment:
  "file_Set data lockID1 comment1 st = file_Set data lockID2 comment2 st
   \<and> Set fileBackend data lockID1 comment1 st = Set fileBackend data lockID2 comment2 st"
  by (simp add: fileBackend_def file_Set_def)

section \<open>Session credentials\<close>



end
